theory Spec2Isabelle
  imports Complex_Main "HOL-Library.Sublist"
begin

section \<open>The IBKR converter of Export-To-Ghostfolio\<close>

text \<open>
  A shallow embedding of \<^verbatim>\<open>src/converters/ibkrConverter.ts\<close>: the schema detection
  (\<^verbatim>\<open>processHeaders\<close>), the override table (\<^verbatim>\<open>loadIsinOverrides\<close>,
  \<^verbatim>\<open>isManualIsin\<close>, \<^verbatim>\<open>getSymbolOverride\<close>), the dividend matcher
  (\<^verbatim>\<open>findExactDividendMatch\<close>) and the callback of \<^verbatim>\<open>processFileContents\<close>
  that turns the parsed records into activities.

  Conventions of the model:
  \<^item> a JavaScript string is a \<open>string\<close>, one \<open>char\<close> per code unit (code units below 256);
  \<^item> \<open>undefined\<close> and \<open>null\<close> are \<open>None\<close>;
  \<^item> a JavaScript number is a value of a type variable \<open>'n\<close>: the converter only stores
    and copies numbers, apart from four operations (\<^verbatim>\<open>parseFloat\<close>, \<^verbatim>\<open>Math.abs\<close>,
    the rounded quotient and the literal \<open>0\<close>) that are fields of the environment, so
    every theorem holds for IEEE doubles as for any other arithmetic;
  \<^item> the collaborators that are not part of the converter (the security service, dayjs,
    the process environment, the clock) are fields of the environment as well;
  \<^item> a thrown exception is a value of type \<open>error\<close>; logging and the progress bar are
    left out.
\<close>

subsection \<open>String operations of JavaScript\<close>

text \<open>\<^verbatim>\<open>String.prototype.trim\<close>: the white space and line terminators below 256.\<close>

definition isWhiteSpace :: "char \<Rightarrow> bool" where
  "isWhiteSpace c \<longleftrightarrow>
     c = CHR 0x09 \<or> c = CHR 0x0A \<or> c = CHR 0x0B \<or> c = CHR 0x0C \<or> c = CHR 0x0D \<or>
     c = CHR '' '' \<or> c = CHR 0xA0"

definition trim :: "string \<Rightarrow> string" where
  "trim s = rev (dropWhile isWhiteSpace (rev (dropWhile isWhiteSpace s)))"

text \<open>
  \<^verbatim>\<open>s.split(sep)\<close> for a non-empty separator: the fields between the occurrences of
  \<open>sep\<close>, found from the left without overlap. \<open>k\<close> occurrences give \<open>k + 1\<close> fields, and
  the empty string gives one empty field.
\<close>

fun splitOn :: "string \<Rightarrow> string \<Rightarrow> string list" where
  "splitOn sep [] = [[]]"
| "splitOn sep (c # s) =
     (if sep \<noteq> [] \<and> prefix sep (c # s) then [] # splitOn sep (drop (length sep - 1) s)
      else (case splitOn sep s of [] \<Rightarrow> [[c]] | f # fs \<Rightarrow> (c # f) # fs))"

text \<open>With the empty separator \<^verbatim>\<open>split\<close> returns the code units one by one.\<close>

definition split :: "string \<Rightarrow> string \<Rightarrow> string list" where
  "split s sep = (if sep = [] then map (\<lambda>c. [c]) s else splitOn sep s)"

text \<open>\<^verbatim>\<open>s.indexOf(sub)\<close>: the first position where \<open>sub\<close> starts, or \<open>-1\<close>.\<close>

fun indexOf :: "string \<Rightarrow> string \<Rightarrow> int" where
  "indexOf [] sub = (if sub = [] then 0 else - 1)"
| "indexOf (c # s) sub =
     (if prefix sub (c # s) then 0
      else (let i = indexOf s sub in if i < 0 then - 1 else i + 1))"

text \<open>
  \<^verbatim>\<open>toLocaleLowerCase\<close> in a locale without special casing rules: the letters A to Z
  and the capital letters of Latin-1 move up by 32, every other code unit stays.
\<close>

definition lowerChar :: "char \<Rightarrow> char" where
  "lowerChar c =
     (let n = (of_char c :: nat) in
      if (65 \<le> n \<and> n \<le> 90) \<or> (192 \<le> n \<and> n \<le> 222 \<and> n \<noteq> 215) then char_of (n + 32)
      else c)"

definition toLocaleLowerCase :: "string \<Rightarrow> string" where
  "toLocaleLowerCase s = map lowerChar s"

definition startsWith :: "string \<Rightarrow> string \<Rightarrow> bool" where
  "startsWith s p = prefix p s"

definition substring :: "string \<Rightarrow> nat \<Rightarrow> nat \<Rightarrow> string" where
  "substring s i j = take (j - i) (drop i s)"

subsection \<open>The cast of the type column\<close>

text \<open>
  The branch of the \<^verbatim>\<open>cast\<close> hook for the column \<^verbatim>\<open>type\<close>: the value that a
  record holds in \<open>rec_type\<close>. A text without any of the four words stays as it is.
\<close>

definition castType :: "string \<Rightarrow> string" where
  "castType columnValue =
     (let action = toLocaleLowerCase columnValue in
      if indexOf action ''buy'' > - 1 then ''buy''
      else if indexOf action ''sell'' > - 1 then ''sell''
      else if indexOf action ''dividend'' > - 1 then ''dividend''
      else if indexOf action ''tax'' > - 1 then ''dividendTax''
      else columnValue)"

subsection \<open>Schema detection\<close>

definition tradeColumns :: "string list" where
  "tradeColumns = [''type'', ''date'', ''isin'', ''quantity'', ''price'', ''totalAmount'',
     ''tradeCurrency'', ''commission'', ''commissionCurrency'']"

definition dividendColumns :: "string list" where
  "dividendColumns = [''type'', ''date'', ''isin'', ''description'', ''amount'', ''currency'']"

text \<open>
  \<^verbatim>\<open>processHeaders(input, splitChar = ",")\<close>. \<^verbatim>\<open>input.split('\n')\<close> is never empty,
  so its element \<open>0\<close> exists.
\<close>

definition processHeaders :: "string \<Rightarrow> string \<Rightarrow> string list" where
  "processHeaders input splitChar =
     (let firstLine = hd (split input [CHR 0x0A]);
          colsInFile = split firstLine splitChar
      in if length colsInFile > 6 then tradeColumns else dividendColumns)"

text \<open>The header line, read off the input directly: everything before the first line feed.\<close>

definition headerLine :: "string \<Rightarrow> string" where
  "headerLine input = takeWhile (\<lambda>c. c \<noteq> CHR 0x0A) input"

subsection \<open>The data model\<close>

text \<open>
  The records that the CSV parser hands to the callback. Every record has the columns
  that \<open>processHeaders\<close> chose, so it has one of two shapes; the numeric columns hold
  numbers (the \<^verbatim>\<open>cast\<close> hook), the others strings. Fields whose names occur in
  several classes carry a prefix here: \<open>rec_\<close> for the parsed records, \<open>sec_\<close> for the
  security; the activity keeps the names of the source.
\<close>

record ibkrRecord =
  rec_type :: string
  rec_date :: string
  isin :: string

record 'n ibkrDividendRecord = ibkrRecord +
  description :: string
  amount :: 'n
  rec_currency :: string

record 'n ibkrTradeRecord = ibkrRecord +
  rec_quantity :: 'n
  price :: 'n
  totalAmount :: 'n
  tradeCurrency :: string
  commission :: 'n
  commissionCurrency :: string

datatype 'n record_row =
    DividendRow "'n ibkrDividendRecord"
  | TradeRow "'n ibkrTradeRecord"

text \<open>The fields of \<^verbatim>\<open>YahooFinanceRecord\<close> that the converter reads or writes.\<close>

record security =
  sec_symbol :: string
  sec_currency :: string
  sec_name :: string

datatype DataSource = YAHOO | MANUAL

text \<open>
  The enum \<^verbatim>\<open>GhostfolioOrderType\<close> is not part of the source at hand. A value of it
  is named by the key it is read under: \<open>OrderTypeKey ''dividend''\<close> is
  \<^verbatim>\<open>GhostfolioOrderType.dividend\<close> and \<open>OrderTypeKey k\<close> is \<^verbatim>\<open>GhostfolioOrderType[k]\<close>.
\<close>

datatype GhostfolioOrderType = OrderTypeKey string

text \<open>
  \<^verbatim>\<open>GhostfolioActivity\<close>. A numeric field and the currency can hold \<open>undefined\<close>:
  a dividend record with an empty currency is read as a trade record.
\<close>

record 'n GhostfolioActivity =
  accountId :: "string option"
  comment :: string
  fee :: "'n option"
  quantity :: "'n option"
  type :: GhostfolioOrderType
  unitPrice :: "'n option"
  currency :: "string option"
  dataSource :: DataSource
  date :: string
  symbol :: string

record 'n GhostfolioExport =
  meta_date :: string
  meta_version :: string
  activities :: "'n GhostfolioActivity list"

datatype error =
    Error string
  | TypeError
  | Thrown string

text \<open>
  One call of \<^verbatim>\<open>securityService.getSecurity(isin, symbol, name, expectedCurrency, progress)\<close>:
  the first four arguments.
\<close>

type_synonym lookup = "string option \<times> string option \<times> string option \<times> string option"

text \<open>
  The environment of a run. \<open>getSecurity\<close> either throws, returns nothing or returns a
  security, and is taken to answer the same arguments in the same way during one run.
  \<open>dayjsFormat fmt d\<close> is \<^verbatim>\<open>dayjs(d, fmt).format("YYYY-MM-DDTHH:mm:ssZ")\<close>, with
  \<open>fmt = None\<close> for the call \<^verbatim>\<open>dayjs(d)\<close>. \<open>divToFixed3 a p\<close> is
  \<^verbatim>\<open>parseFloat((a / p).toFixed(3))\<close>, and \<open>num0\<close> is the number \<open>0\<close>.
\<close>

record 'n env =
  getSecurity :: "string option \<Rightarrow> string option \<Rightarrow> string option \<Rightarrow> string option
                    \<Rightarrow> error + security option"
  GHOSTFOLIO_ACCOUNT_ID :: "string option"
  dayjsFormat :: "string option \<Rightarrow> string \<Rightarrow> string"
  parseFloat :: "string \<Rightarrow> 'n"
  mathAbs :: "'n \<Rightarrow> 'n"
  divToFixed3 :: "'n \<Rightarrow> 'n \<Rightarrow> 'n"
  num0 :: "'n"
  newDate :: string

subsection \<open>The override table\<close>

record overrides =
  isinOverrides :: "string \<rightharpoonup> string"
  manualIsins :: "string set"

definition noOverrides :: overrides where
  "noOverrides = \<lparr>isinOverrides = Map.empty, manualIsins = {}\<rparr>"

text \<open>
  The body of the loop of \<^verbatim>\<open>loadIsinOverrides\<close>, in two parts. \<open>overrideEntry\<close> is
  the part up to the last \<^verbatim>\<open>continue\<close>: the pair that a line contributes, or \<open>None\<close>
  for a line that is skipped. \<open>loadLine\<close> stores the pair.
\<close>

definition overrideEntry :: "string \<Rightarrow> (string \<times> string) option" where
  "overrideEntry line =
     (let trimmed = trim line in
      if trimmed = [] \<or> startsWith trimmed ''#'' then None
      else
        let parts = split trimmed ''='' in
        if length parts \<noteq> 2 then None
        else
          let i = trim (parts ! 0); s = trim (parts ! 1) in
          if i = [] \<or> s = [] then None
          else Some (i, s))"

definition loadLine :: "overrides \<Rightarrow> string \<Rightarrow> overrides" where
  "loadLine ov line =
     (case overrideEntry line of
        None \<Rightarrow> ov
      | Some (i, s) \<Rightarrow>
          if i = s then ov\<lparr>manualIsins := insert i (manualIsins ov)\<rparr>
          else ov\<lparr>isinOverrides := (isinOverrides ov)(i \<mapsto> s)\<rparr>)"

text \<open>
  \<^verbatim>\<open>loadIsinOverrides\<close>, from the content of \<^verbatim>\<open>isin-overrides.txt\<close>; \<open>None\<close> when
  the file does not exist. The constructor leaves both collections empty before.
\<close>

definition loadIsinOverrides :: "string option \<Rightarrow> overrides" where
  "loadIsinOverrides file =
     (case file of
        None \<Rightarrow> noOverrides
      | Some content \<Rightarrow> foldl loadLine noOverrides (split content [CHR 0x0A]))"

definition isManualIsin :: "overrides \<Rightarrow> string \<Rightarrow> bool" where
  "isManualIsin ov i \<longleftrightarrow> i \<in> manualIsins ov"

definition getSymbolOverride :: "overrides \<Rightarrow> string \<Rightarrow> string option" where
  "getSymbolOverride ov i = isinOverrides ov i"

subsection \<open>The price in a dividend description\<close>

definition isDigit :: "char \<Rightarrow> bool" where
  "isDigit c \<longleftrightarrow> 48 \<le> (of_char c :: nat) \<and> (of_char c :: nat) \<le> 57"

text \<open>
  A match of \<^verbatim>\<open>/(\d+(\.\d+)?)(?= PER SHARE)/\<close> that starts at the head of the string.
  The lookahead starts with a space, which is neither a digit nor a dot, so both
  \<^verbatim>\<open>\d+\<close> must take their whole run of digits and backtracking finds nothing more:
  the match is the run of digits, or the run, a dot and a second run, followed by
  \<^verbatim>\<open>" PER SHARE"\<close>.
\<close>

definition matchPerShareAt :: "string \<Rightarrow> string option" where
  "matchPerShareAt s =
     (let ds = takeWhile isDigit s; rest = dropWhile isDigit s in
      if ds = [] then None
      else
        (case rest of
           [] \<Rightarrow> None
         | c # r \<Rightarrow>
             if c = CHR ''.'' then
               (let fs = takeWhile isDigit r; rest2 = dropWhile isDigit r in
                if fs \<noteq> [] \<and> prefix '' PER SHARE'' rest2 then Some (ds @ c # fs) else None)
             else if prefix '' PER SHARE'' rest then Some ds
             else None))"

text \<open>
  \<^verbatim>\<open>description.match(/(\d+(\.\d+)?)(?= PER SHARE)/)\<close>: element \<open>0\<close> of the leftmost
  match, or \<open>None\<close> where \<^verbatim>\<open>match\<close> returns \<^verbatim>\<open>null\<close>.
\<close>

fun matchPerShare :: "string \<Rightarrow> string option" where
  "matchPerShare [] = None"
| "matchPerShare (c # s) =
     (case matchPerShareAt (c # s) of Some m \<Rightarrow> Some m | None \<Rightarrow> matchPerShare s)"

subsection \<open>Processing one record\<close>

fun rowIsin :: "'n record_row \<Rightarrow> string" where
  "rowIsin (DividendRow d) = isin d"
| "rowIsin (TradeRow t) = isin t"

fun rowDate :: "'n record_row \<Rightarrow> string" where
  "rowDate (DividendRow d) = rec_date d"
| "rowDate (TradeRow t) = rec_date t"

definition isIgnoredRecord :: "'n record_row \<Rightarrow> bool" where
  "isIgnoredRecord r \<longleftrightarrow> rowIsin r = []"

text \<open>
  Lines 104 to 110: the currency of the record. A dividend record with an empty
  currency has no \<^verbatim>\<open>tradeCurrency\<close> either, which leaves \<open>undefined\<close>.
\<close>

fun rawCurrency :: "'n record_row \<Rightarrow> string option" where
  "rawCurrency (DividendRow d) = (if rec_currency d \<noteq> [] then Some (rec_currency d) else None)"
| "rawCurrency (TradeRow t) = Some (tradeCurrency t)"

definition recordCurrency :: "'n record_row \<Rightarrow> string option" where
  "recordCurrency r = (if rawCurrency r = Some ''GBX'' then Some ''GBp'' else rawCurrency r)"

text \<open>
  Lines 112 to 150: the security of an identifier, the data source, and the calls of
  the security service that were made. \<open>Inl\<close> is the error that the service threw.
\<close>

definition callGetSecurity ::
  "'n env \<Rightarrow> string option \<Rightarrow> string option \<Rightarrow> string option
     \<Rightarrow> (error + security option \<times> DataSource) \<times> lookup list" where
  "callGetSecurity env i s cur =
     ((case getSecurity env i s None cur of
         Inl err \<Rightarrow> Inl err
       | Inr sec \<Rightarrow> Inr (sec, YAHOO)),
      [(i, s, None, cur)])"

definition resolveSecurity ::
  "'n env \<Rightarrow> overrides \<Rightarrow> string \<Rightarrow> string option
     \<Rightarrow> (error + security option \<times> DataSource) \<times> lookup list" where
  "resolveSecurity env ov i cur =
     (if isManualIsin ov i then
        (Inr (Some \<lparr>sec_symbol = ''GF_'' @ i,
                    sec_currency = (case cur of None \<Rightarrow> ''USD''
                                    | Some c \<Rightarrow> if c = [] then ''USD'' else c),
                    sec_name = i\<rparr>, MANUAL), [])
      else
        (case getSymbolOverride ov i of
           None \<Rightarrow> callGetSecurity env (Some i) None cur
         | Some symbolOverride \<Rightarrow>
             if symbolOverride \<noteq> [] then callGetSecurity env None (Some symbolOverride) cur
             else callGetSecurity env (Some i) None cur))"

text \<open>\<^verbatim>\<open>findExactDividendMatch\<close>: the predicate and \<^verbatim>\<open>activities.find\<close>.\<close>

definition exactDividendMatch ::
  "'n env \<Rightarrow> 'n ibkrDividendRecord \<Rightarrow> string \<Rightarrow> 'n GhostfolioActivity \<Rightarrow> bool" where
  "exactDividendMatch env dividendRecord symb a \<longleftrightarrow>
     symbol a = symb \<and>
     currency a = Some (rec_currency dividendRecord) \<and>
     substring (comment a) 0 20 = substring (description dividendRecord) 0 20 \<and>
     date a = dayjsFormat env None (rec_date dividendRecord)"

definition findExactDividendMatch ::
  "'n env \<Rightarrow> 'n ibkrDividendRecord \<Rightarrow> string \<Rightarrow> 'n GhostfolioActivity list
     \<Rightarrow> 'n GhostfolioActivity option" where
  "findExactDividendMatch env dividendRecord symb acts =
     find (exactDividendMatch env dividendRecord symb) acts"

text \<open>
  The activity that \<^verbatim>\<open>find\<close> returned is an element of the list, and the assignments
  to its fields change the list in place: the first element that satisfies the predicate.
\<close>

fun updateFirst :: "('a \<Rightarrow> bool) \<Rightarrow> ('a \<Rightarrow> 'a) \<Rightarrow> 'a list \<Rightarrow> 'a list" where
  "updateFirst P f [] = []"
| "updateFirst P f (x # xs) = (if P x then f x # xs else x # updateFirst P f xs)"

text \<open>
  Lines 159 to 233: from a record with a security to the new list of activities, or to
  the \<^verbatim>\<open>TypeError\<close> of reading element \<open>0\<close> of \<^verbatim>\<open>null\<close>.
\<close>

definition convertRecord ::
  "'n env \<Rightarrow> 'n GhostfolioActivity list \<Rightarrow> 'n record_row \<Rightarrow> string option \<Rightarrow> security
     \<Rightarrow> DataSource \<Rightarrow> error + 'n GhostfolioActivity list" where
  "convertRecord env acts r cur sec src =
     (let push = (\<lambda>cmt fees qty typ prc.
            acts @ [\<lparr>accountId = GHOSTFOLIO_ACCOUNT_ID env, comment = cmt, fee = fees,
                     quantity = qty, type = typ, unitPrice = prc, currency = cur,
                     dataSource = src,
                     date = dayjsFormat env (Some ''YYYYMMDD'') (rowDate r),
                     symbol = sec_symbol sec\<rparr>])
      in
      case r of
        TradeRow t \<Rightarrow>
          Inr (push [] (Some (commission t)) (Some (rec_quantity t))
                 (OrderTypeKey (rec_type t)) (Some (price t)))
      | DividendRow d \<Rightarrow>
          if rec_currency d = [] then
            Inr (push [] None None (OrderTypeKey (rec_type d)) None)
          else if indexOf (toLocaleLowerCase (description d)) ''in lieu of'' > - 1 then
            Inr (push (description d) (Some (num0 env)) (Some (amount d))
                   (OrderTypeKey ''dividend'') (Some (num0 env)))
          else
            (case matchPerShare (description d) of
               None \<Rightarrow> Inl TypeError
             | Some m \<Rightarrow>
                 let prc = parseFloat env m;
                     fees = (if rec_type d = ''dividendTax'' then mathAbs env (amount d)
                             else num0 env);
                     qty = (if rec_type d = ''dividendTax'' then num0 env
                            else divToFixed3 env (amount d) prc);
                     cmt = description d
                 in
                 (case findExactDividendMatch env d (sec_symbol sec) acts of
                    None \<Rightarrow> Inr (push cmt (Some fees) (Some qty) (OrderTypeKey ''dividend'')
                                   (Some prc))
                  | Some existingDividendRecord \<Rightarrow>
                      if indexOf (comment existingDividendRecord) ''TAX'' > - 1 then
                        Inr (updateFirst (exactDividendMatch env d (sec_symbol sec))
                               (\<lambda>a. a\<lparr>comment := cmt, unitPrice := Some prc,
                                       quantity := Some qty\<rparr>) acts)
                      else
                        Inr (updateFirst (exactDividendMatch env d (sec_symbol sec))
                               (\<lambda>a. a\<lparr>fee := Some fees\<rparr>) acts))))"

text \<open>One pass of the loop body: the result for the list of activities, and the calls made.\<close>

definition processRecord ::
  "'n env \<Rightarrow> overrides \<Rightarrow> 'n GhostfolioActivity list \<Rightarrow> 'n record_row
     \<Rightarrow> (error + 'n GhostfolioActivity list) \<times> lookup list" where
  "processRecord env ov acts r =
     (if isIgnoredRecord r then (Inr acts, [])
      else
        (case resolveSecurity env ov (rowIsin r) (recordCurrency r) of
           (Inl err, calls) \<Rightarrow> (Inl err, calls)
         | (Inr (None, src), calls) \<Rightarrow> (Inr acts, calls)
         | (Inr (Some sec, src), calls) \<Rightarrow>
             (convertRecord env acts r (recordCurrency r) sec src, calls)))"

subsection \<open>The loop and the callbacks\<close>

text \<open>
  The \<^verbatim>\<open>for\<close> loop: an error ends it, and the records after the failing one are not
  looked at.
\<close>

fun processRecords ::
  "'n env \<Rightarrow> overrides \<Rightarrow> 'n GhostfolioActivity list \<Rightarrow> 'n record_row list
     \<Rightarrow> (error + 'n GhostfolioActivity list) \<times> lookup list" where
  "processRecords env ov acts [] = (Inr acts, [])"
| "processRecords env ov acts (r # rs) =
     (case processRecord env ov acts r of
        (Inl err, calls) \<Rightarrow> (Inl err, calls)
      | (Inr acts', calls) \<Rightarrow>
          (case processRecords env ov acts' rs of (res, calls') \<Rightarrow> (res, calls @ calls')))"

datatype 'n callback =
    errorCallback error
  | successCallback "'n GhostfolioExport"

definition parseErrorMsg :: "string option \<Rightarrow> string" where
  "parseErrorMsg err =
     ''An error occurred while parsing!'' @
     (case err of None \<Rightarrow> [] | Some message \<Rightarrow> '' Details: '' @ message)"

text \<open>
  The callback that \<^verbatim>\<open>processFileContents\<close> gives to the parser, from the parser's
  \<^verbatim>\<open>err\<close> (its message) and \<^verbatim>\<open>records\<close>: the callbacks invoked, in order, and the calls
  of the security service. The two callbacks are taken not to throw.
\<close>

definition processFileContents ::
  "'n env \<Rightarrow> overrides \<Rightarrow> string option \<Rightarrow> 'n record_row list option
     \<Rightarrow> 'n callback list \<times> lookup list" where
  "processFileContents env ov err records =
     (case (err, records) of
        (None, Some rs) \<Rightarrow>
          if length rs = 0 then ([errorCallback (Error (parseErrorMsg err))], [])
          else
            (case processRecords env ov [] rs of
               (Inl e, calls) \<Rightarrow> ([errorCallback e], calls)
             | (Inr acts, calls) \<Rightarrow>
                 ([successCallback \<lparr>meta_date = newDate env, meta_version = ''v0'',
                                    activities = acts\<rparr>], calls))
      | _ \<Rightarrow> ([errorCallback (Error (parseErrorMsg err))], []))"

subsection \<open>Sample data\<close>

text \<open>
  A concrete environment over the rationals and a few records, for evaluating the model.
  \<open>decimalValue\<close> is the value of a string of the form that the price expression
  matches (digits, or digits, a dot and digits), and the quotient is rounded to three
  decimals, half up; the samples divide by prices other than \<open>0\<close> only. The security
  service knows two identifiers and one symbol, and fails for a third identifier.
\<close>

definition digitsValue :: "string \<Rightarrow> nat" where
  "digitsValue s = foldl (\<lambda>n c. 10 * n + (of_char c - 48)) 0 s"

definition decimalValue :: "string \<Rightarrow> rat" where
  "decimalValue s =
     (let ip = takeWhile isDigit s; fp = takeWhile isDigit (drop (length ip + 1) s)
      in of_nat (digitsValue ip) + of_nat (digitsValue fp) / 10 ^ length fp)"

definition apple :: security where
  "apple = \<lparr>sec_symbol = ''AAPL'', sec_currency = ''USD'', sec_name = ''Apple Inc.''\<rparr>"

definition shell :: security where
  "shell = \<lparr>sec_symbol = ''RDSA.L'', sec_currency = ''GBp'', sec_name = ''Royal Dutch Shell''\<rparr>"

definition testEnv :: "rat env" where
  "testEnv = \<lparr>
     getSecurity = (\<lambda>i s n c.
        if i = Some ''US0378331005'' \<or> s = Some ''AAPL'' then Inr (Some apple)
        else if i = Some ''GB00B03MLX29'' then Inr (Some shell)
        else if i = Some ''XX0000000000'' then Inl (Thrown ''service unavailable'')
        else Inr None),
     GHOSTFOLIO_ACCOUNT_ID = Some ''account-1'',
     dayjsFormat = (\<lambda>fmt d. take 4 d @ ''-'' @ take 2 (drop 4 d) @ ''-'' @ take 2 (drop 6 d)
                      @ ''T00:00:00+00:00''),
     parseFloat = decimalValue,
     mathAbs = abs,
     divToFixed3 = (\<lambda>a p. of_int \<lfloor>a / p * 1000 + 1 / 2\<rfloor> / 1000),
     num0 = 0,
     newDate = ''2023-01-06T00:00:00.000Z''\<rparr>"

text \<open>
  The records of \<^verbatim>\<open>DIVIDEND,20230105,US0378331005,"0.24 PER SHARE",2.40,USD\<close> and
  \<^verbatim>\<open>TAX,20230105,US0378331005,"0.24 PER SHARE",0.36,USD\<close>.
\<close>

definition plainDividend :: "rat ibkrDividendRecord" where
  "plainDividend = \<lparr>rec_type = ''dividend'', rec_date = ''20230105'',
     isin = ''US0378331005'', description = ''0.24 PER SHARE'', amount = 24 / 10,
     rec_currency = ''USD''\<rparr>"

definition plainTax :: "rat ibkrDividendRecord" where
  "plainTax = \<lparr>rec_type = ''dividendTax'', rec_date = ''20230105'',
     isin = ''US0378331005'', description = ''0.24 PER SHARE'', amount = 36 / 100,
     rec_currency = ''USD''\<rparr>"

text \<open>A dividend and its withholding tax with the descriptions of a broker statement.\<close>

definition appleDividend :: "rat ibkrDividendRecord" where
  "appleDividend = \<lparr>rec_type = ''dividend'', rec_date = ''20230105'',
     isin = ''US0378331005'',
     description = ''AAPL(US0378331005) CASH DIVIDEND USD 0.24 PER SHARE (Ordinary Dividend)'',
     amount = 24 / 10, rec_currency = ''USD''\<rparr>"

definition appleTax :: "rat ibkrDividendRecord" where
  "appleTax = \<lparr>rec_type = ''dividendTax'', rec_date = ''20230105'',
     isin = ''US0378331005'',
     description = ''AAPL(US0378331005) CASH DIVIDEND USD 0.24 PER SHARE - US TAX'',
     amount = 36 / 100, rec_currency = ''USD''\<rparr>"

definition applePaymentInLieu :: "rat ibkrDividendRecord" where
  "applePaymentInLieu = \<lparr>rec_type = ''dividend'', rec_date = ''20230105'',
     isin = ''US0378331005'',
     description = ''AAPL(US0378331005) CASH DIVIDEND USD 0.24 PER SHARE - PAYMENT IN LIEU OF DIVIDEND'',
     amount = 12 / 10, rec_currency = ''USD''\<rparr>"

definition appleNoPrice :: "rat ibkrDividendRecord" where
  "appleNoPrice = \<lparr>rec_type = ''dividend'', rec_date = ''20230106'',
     isin = ''US0378331005'',
     description = ''AAPL(US0378331005) CASH DIVIDEND (Ordinary Dividend)'',
     amount = 24 / 10, rec_currency = ''USD''\<rparr>"

text \<open>A second dividend of the same security on the same day.\<close>

definition appleSpecialDividend :: "rat ibkrDividendRecord" where
  "appleSpecialDividend = \<lparr>rec_type = ''dividend'', rec_date = ''20230105'',
     isin = ''US0378331005'',
     description = ''AAPL(US0378331005) CASH DIVIDEND USD 0.10 PER SHARE (Bonus Dividend)'',
     amount = 2 / 10, rec_currency = ''USD''\<rparr>"

definition shellDividend :: "rat ibkrDividendRecord" where
  "shellDividend = \<lparr>rec_type = ''dividend'', rec_date = ''20230320'',
     isin = ''GB00B03MLX29'',
     description = ''RDSA(GB00B03MLX29) CASH DIVIDEND GBX 12.5 PER SHARE (Ordinary Dividend)'',
     amount = 250, rec_currency = ''GBX''\<rparr>"

definition shellTax :: "rat ibkrDividendRecord" where
  "shellTax = \<lparr>rec_type = ''dividendTax'', rec_date = ''20230320'',
     isin = ''GB00B03MLX29'',
     description = ''RDSA(GB00B03MLX29) CASH DIVIDEND GBX 12.5 PER SHARE - NL TAX'',
     amount = 75 / 2, rec_currency = ''GBX''\<rparr>"

text \<open>
  The records of \<^verbatim>\<open>BUY,20230105,US0378331005,10,150.00,1500.00,USD,1.00,USD\<close> and of
  a purchase of a security for which the service fails.
\<close>

definition appleBuy :: "rat ibkrTradeRecord" where
  "appleBuy = \<lparr>rec_type = ''buy'', rec_date = ''20230105'', isin = ''US0378331005'',
     rec_quantity = 10, price = 150, totalAmount = 1500, tradeCurrency = ''USD'',
     commission = 1, commissionCurrency = ''USD''\<rparr>"

definition failingBuy :: "rat ibkrTradeRecord" where
  "failingBuy = \<lparr>rec_type = ''buy'', rec_date = ''20230106'', isin = ''XX0000000000'',
     rec_quantity = 5, price = 20, totalAmount = 100, tradeCurrency = ''USD'',
     commission = 1, commissionCurrency = ''USD''\<rparr>"

text \<open>
  The content of an override file: a comment, an identifier marked as manual, an empty
  line, two replacement keys for one identifier, a line that is not a pair, and a
  replacement key for the identifier that was marked as manual.
\<close>

definition sampleOverrides :: string where
  "sampleOverrides =
     ''# manual securities\<newline>US0378331005=US0378331005\<newline>\<newline>IE00B4L5Y983 = EUNL.DE\<newline>not a pair\<newline>IE00B4L5Y983=IWDA.AS\<newline>US0378331005=AAPL''"

subsection \<open>Notions for the properties\<close>

text \<open>No activity of the list has the currency \<open>GBX\<close>.\<close>

definition noGBX :: "'n GhostfolioActivity list \<Rightarrow> bool" where
  "noGBX acts \<longleftrightarrow> (\<forall>a\<in>set acts. currency a \<noteq> Some ''GBX'')"

text \<open>The fields of an activity that the predicate of the matcher reads.\<close>

definition matchKey :: "'n GhostfolioActivity \<Rightarrow> string \<times> string option \<times> string \<times> string" where
  "matchKey a = (symbol a, currency a, substring (comment a) 0 20, date a)"

text \<open>
  The record \<open>r\<close> asks the matcher and the matcher accepts the activity \<open>a\<close>: \<open>r\<close> is
  a dividend record with an identifier and a currency that is not a payment in lieu,
  it has a security, and \<open>a\<close> has the symbol of that security and the currency, the
  date and the first 20 characters of \<open>r\<close>.
\<close>

definition rowMatches ::
  "'n env \<Rightarrow> overrides \<Rightarrow> 'n record_row \<Rightarrow> 'n GhostfolioActivity \<Rightarrow> bool" where
  "rowMatches env ov r a \<longleftrightarrow>
     (case r of
        TradeRow t \<Rightarrow> False
      | DividendRow x \<Rightarrow>
          isin x \<noteq> [] \<and> rec_currency x \<noteq> [] \<and>
          \<not> indexOf (toLocaleLowerCase (description x)) ''in lieu of'' > - 1 \<and>
          (case resolveSecurity env ov (isin x) (recordCurrency r) of
             (Inr (Some sec, src), calls) \<Rightarrow> exactDividendMatch env x (sec_symbol sec) a
           | _ \<Rightarrow> False))"

section \<open>Properties\<close>

subsection \<open>Schema detection\<close>

lemma splitOn_not_Nil: "splitOn sep s \<noteq> []"
  by (induction sep s rule: splitOn.induct) (auto split: list.splits)

lemma hd_splitOn_char: "hd (splitOn [c] s) = takeWhile (\<lambda>x. x \<noteq> c) s"
proof (induction s)
  case Nil
  show ?case by simp
next
  case (Cons x s)
  obtain f fs where "splitOn [c] s = f # fs"
    using splitOn_not_Nil [of "[c]" s] by (cases "splitOn [c] s") auto
  with Cons show ?case by auto
qed

lemma length_splitOn_char: "length (splitOn [c] s) = Suc (count_list s c)"
proof (induction s)
  case Nil
  show ?case by simp
next
  case (Cons x s)
  obtain f fs where "splitOn [c] s = f # fs"
    using splitOn_not_Nil [of "[c]" s] by (cases "splitOn [c] s") auto
  with Cons show ?case by auto
qed

text \<open>
  C6. The columns depend on the input only through its header line: when the header
  line splits on the delimiter into more than 6 fields the nine columns of a trade
  export are chosen, and the six columns of a dividend export otherwise. The names in
  the header are not looked at.
\<close>

theorem processHeaders_schema:
  "processHeaders input splitChar =
     (if 6 < length (split (headerLine input) splitChar)
      then [''type'', ''date'', ''isin'', ''quantity'', ''price'', ''totalAmount'',
            ''tradeCurrency'', ''commission'', ''commissionCurrency'']
      else [''type'', ''date'', ''isin'', ''description'', ''amount'', ''currency''])"
  by (simp add: processHeaders_def headerLine_def split_def hd_splitOn_char
        tradeColumns_def dividendColumns_def)

text \<open>A header of seven fields selects the trade columns, one of six the dividend columns.\<close>

theorem processHeaders_schema_witness:
  "processHeaders ''Type,Date,ISIN,Description,Amount,Currency,Extra\<newline>BUY,20230105'' '','' =
     [''type'', ''date'', ''isin'', ''quantity'', ''price'', ''totalAmount'',
      ''tradeCurrency'', ''commission'', ''commissionCurrency''] \<and>
   processHeaders ''not,a,known,column,name,here\<newline>1,2,3,4,5,6,7,8,9'' '','' =
     [''type'', ''date'', ''isin'', ''description'', ''amount'', ''currency'']"
  using processHeaders_schema
      [of "''Type,Date,ISIN,Description,Amount,Currency,Extra\<newline>BUY,20230105''" "'',''"]
    processHeaders_schema
      [of "''not,a,known,column,name,here\<newline>1,2,3,4,5,6,7,8,9''" "'',''"]
  by (simp add: headerLine_def split_def)

text \<open>With the comma of the converter, the fields are one more than the commas.\<close>

lemma processHeaders_comma:
  "processHeaders input '','' =
     (if 6 \<le> count_list (headerLine input) CHR '','' then tradeColumns else dividendColumns)"
  by (simp add: processHeaders_def headerLine_def split_def hd_splitOn_char
        length_splitOn_char)

subsection \<open>The override table and the resolution of a security\<close>

lemma overrideEntry_nonempty: "overrideEntry l = Some (i, k) \<Longrightarrow> i \<noteq> [] \<and> k \<noteq> []"
  by (auto simp: overrideEntry_def Let_def split: if_splits)

lemma manualIsins_loadLine:
  "manualIsins (loadLine ov l) = manualIsins ov \<union> {i. overrideEntry l = Some (i, i)}"
  by (auto simp: loadLine_def split: option.splits)

lemma manualIsins_foldl:
  "manualIsins (foldl loadLine ov ls) =
     manualIsins ov \<union> {i. \<exists>l\<in>set ls. overrideEntry l = Some (i, i)}"
  by (induction ls arbitrary: ov) (auto simp: manualIsins_loadLine)

lemma isinOverrides_loadLine:
  "isinOverrides (loadLine ov l) i =
     (case overrideEntry l of
        None \<Rightarrow> isinOverrides ov i
      | Some (j, k) \<Rightarrow> if j = i \<and> k \<noteq> i then Some k else isinOverrides ov i)"
  by (auto simp: loadLine_def split: option.splits)

lemma isinOverrides_foldl_skip:
  "\<forall>l\<in>set ls. \<forall>k. k \<noteq> i \<longrightarrow> overrideEntry l \<noteq> Some (i, k) \<Longrightarrow>
   isinOverrides (foldl loadLine ov ls) i = isinOverrides ov i"
  by (induction ls arbitrary: ov) (auto simp: isinOverrides_loadLine split: option.splits)

lemma isinOverrides_foldl_nonempty:
  "\<forall>i k. isinOverrides ov i = Some k \<longrightarrow> k \<noteq> [] \<Longrightarrow>
   isinOverrides (foldl loadLine ov ls) i = Some k \<Longrightarrow> k \<noteq> []"
proof (induction ls arbitrary: ov)
  case Nil
  then show ?case by simp
next
  case (Cons l ls)
  have "\<forall>i k. isinOverrides (loadLine ov l) i = Some k \<longrightarrow> k \<noteq> []"
    using Cons.prems(1) overrideEntry_nonempty [of l]
    by (auto simp: isinOverrides_loadLine split: option.splits if_splits)
  then show ?case using Cons.IH [of "loadLine ov l"] Cons.prems(2) by simp
qed

lemma loadIsinOverrides_nonempty:
  "getSymbolOverride (loadIsinOverrides file) i = Some k \<Longrightarrow> k \<noteq> []"
  using isinOverrides_foldl_nonempty [of noOverrides]
  by (auto simp: getSymbolOverride_def loadIsinOverrides_def noOverrides_def split: option.splits)

text \<open>
  C3. With the table of any override file, the resolution of an identifier follows a
  strict order. A manual identifier gets the made-up security with the symbol
  \<open>GF_\<close> and the identifier, the currency of the record (as line 110 leaves it) or
  \<open>USD\<close>, the identifier as its name and the data source \<open>MANUAL\<close>, and the
  security service is not called. Otherwise an identifier with a replacement key is
  looked up once, by the key in the place of the symbol and without the identifier.
  Otherwise it is looked up once by the identifier itself.
\<close>

theorem resolveSecurity_precedence:
  assumes "ov = loadIsinOverrides file"
  shows "(isManualIsin ov i \<longrightarrow>
            resolveSecurity env ov i cur =
              (Inr (Some \<lparr>sec_symbol = ''GF_'' @ i,
                          sec_currency = (case cur of None \<Rightarrow> ''USD''
                                          | Some c \<Rightarrow> if c = [] then ''USD'' else c),
                          sec_name = i\<rparr>, MANUAL), [])) \<and>
         (\<not> isManualIsin ov i \<and> getSymbolOverride ov i = Some k \<longrightarrow>
            resolveSecurity env ov i cur =
              (case getSecurity env None (Some k) None cur of
                 Inl err \<Rightarrow> (Inl err, [(None, Some k, None, cur)])
               | Inr sec \<Rightarrow> (Inr (sec, YAHOO), [(None, Some k, None, cur)]))) \<and>
         (\<not> isManualIsin ov i \<and> getSymbolOverride ov i = None \<longrightarrow>
            resolveSecurity env ov i cur =
              (case getSecurity env (Some i) None None cur of
                 Inl err \<Rightarrow> (Inl err, [(Some i, None, None, cur)])
               | Inr sec \<Rightarrow> (Inr (sec, YAHOO), [(Some i, None, None, cur)])))"
  using assms loadIsinOverrides_nonempty [of "file" i k]
  by (auto simp: resolveSecurity_def callGetSecurity_def split: sum.splits)

theorem resolveSecurity_precedence_witness:
  "isManualIsin (loadIsinOverrides (Some sampleOverrides)) ''US0378331005'' \<and>
   resolveSecurity testEnv (loadIsinOverrides (Some sampleOverrides)) ''US0378331005'' (Some []) =
     (Inr (Some \<lparr>sec_symbol = ''GF_US0378331005'', sec_currency = ''USD'',
                 sec_name = ''US0378331005''\<rparr>, MANUAL), []) \<and>
   \<not> isManualIsin (loadIsinOverrides (Some sampleOverrides)) ''IE00B4L5Y983'' \<and>
   getSymbolOverride (loadIsinOverrides (Some sampleOverrides)) ''IE00B4L5Y983'' = Some ''IWDA.AS'' \<and>
   resolveSecurity testEnv (loadIsinOverrides (Some sampleOverrides)) ''IE00B4L5Y983'' (Some ''EUR'') =
     (Inr (None, YAHOO), [(None, Some ''IWDA.AS'', None, Some ''EUR'')]) \<and>
   \<not> isManualIsin (loadIsinOverrides (Some sampleOverrides)) ''GB00B03MLX29'' \<and>
   getSymbolOverride (loadIsinOverrides (Some sampleOverrides)) ''GB00B03MLX29'' = None \<and>
   resolveSecurity testEnv (loadIsinOverrides (Some sampleOverrides)) ''GB00B03MLX29'' (Some ''GBp'') =
     (Inr (Some shell, YAHOO), [(Some ''GB00B03MLX29'', None, None, Some ''GBp'')])"
proof -
  let ?ov = "loadIsinOverrides (Some sampleOverrides)"
  have m1: "isManualIsin ?ov ''US0378331005''" by code_simp
  have m2: "\<not> isManualIsin ?ov ''IE00B4L5Y983''" by code_simp
  have m3: "\<not> isManualIsin ?ov ''GB00B03MLX29''" by code_simp
  have o2: "getSymbolOverride ?ov ''IE00B4L5Y983'' = Some ''IWDA.AS''" by code_simp
  have o3: "getSymbolOverride ?ov ''GB00B03MLX29'' = None" by code_simp
  have g2: "getSecurity testEnv None (Some ''IWDA.AS'') None (Some ''EUR'') = Inr None"
    by (simp add: testEnv_def)
  have g3: "getSecurity testEnv (Some ''GB00B03MLX29'') None None (Some ''GBp'') = Inr (Some shell)"
    by (simp add: testEnv_def)
  note p = resolveSecurity_precedence [OF refl, of "Some sampleOverrides"]
  show ?thesis
    using p [of "''US0378331005''" testEnv "Some []" "[]"]
      p [of "''IE00B4L5Y983''" testEnv "Some ''EUR''" "''IWDA.AS''"]
      p [of "''GB00B03MLX29''" testEnv "Some ''GBp''" "[]"]
      m1 m2 m3 o2 o3 g2 g3
    by simp
qed


text \<open>
  C9. An identifier that some line of the override file marks as manual always gets the
  made-up manual security and the security service is not called, whatever other lines
  the file has for it and wherever they stand.
\<close>

theorem manual_wins:
  assumes "l \<in> set (split content [CHR 0x0A])"
    and "overrideEntry l = Some (i, i)"
  shows "resolveSecurity env (loadIsinOverrides (Some content)) i cur =
           (Inr (Some \<lparr>sec_symbol = ''GF_'' @ i,
                       sec_currency = (case cur of None \<Rightarrow> ''USD''
                                       | Some c \<Rightarrow> if c = [] then ''USD'' else c),
                       sec_name = i\<rparr>, MANUAL), [])"
proof -
  have "isManualIsin (loadIsinOverrides (Some content)) i"
    using assms by (auto simp: isManualIsin_def loadIsinOverrides_def manualIsins_foldl)
  then show ?thesis by (simp add: resolveSecurity_def)
qed

theorem manual_wins_witness:
  "''US0378331005=US0378331005'' \<in> set (split sampleOverrides [CHR 0x0A]) \<and>
   overrideEntry ''US0378331005=US0378331005'' = Some (''US0378331005'', ''US0378331005'') \<and>
   getSymbolOverride (loadIsinOverrides (Some sampleOverrides)) ''US0378331005'' = Some ''AAPL'' \<and>
   resolveSecurity testEnv (loadIsinOverrides (Some sampleOverrides)) ''US0378331005'' (Some ''USD'') =
     (Inr (Some \<lparr>sec_symbol = ''GF_US0378331005'', sec_currency = ''USD'',
                 sec_name = ''US0378331005''\<rparr>, MANUAL), [])"
proof -
  have h1: "''US0378331005=US0378331005'' \<in> set (split sampleOverrides [CHR 0x0A])"
    by code_simp
  have h2: "overrideEntry ''US0378331005=US0378331005'' = Some (''US0378331005'', ''US0378331005'')"
    by code_simp
  have h3: "getSymbolOverride (loadIsinOverrides (Some sampleOverrides)) ''US0378331005'' = Some ''AAPL''"
    by code_simp
  show ?thesis
    using manual_wins [OF h1 h2, of testEnv "Some ''USD''"] h1 h2 h3 by simp
qed

text \<open>
  C2, as amended. Among the replacement keys of an identifier the last one wins: when
  the last valid line of an identifier gives a replacement key and no line before it
  marks the identifier as manual, the table holds that key for the identifier and the
  identifier is looked up by it.
\<close>

theorem replacement_last_wins:
  assumes "split content [CHR 0x0A] = ls1 @ l # ls2"
    and "overrideEntry l = Some (i, k)" and "k \<noteq> i"
    and "\<forall>l'\<in>set ls2. \<forall>v. overrideEntry l' \<noteq> Some (i, v)"
    and "\<forall>l'\<in>set ls1. overrideEntry l' \<noteq> Some (i, i)"
  shows "getSymbolOverride (loadIsinOverrides (Some content)) i = Some k \<and>
         resolveSecurity env (loadIsinOverrides (Some content)) i cur =
           (case getSecurity env None (Some k) None cur of
              Inl err \<Rightarrow> (Inl err, [(None, Some k, None, cur)])
            | Inr sec \<Rightarrow> (Inr (sec, YAHOO), [(None, Some k, None, cur)]))"
proof -
  let ?ov = "loadIsinOverrides (Some content)"
  have ov: "?ov = foldl loadLine (loadLine (foldl loadLine noOverrides ls1) l) ls2"
    using assms(1) by (simp add: loadIsinOverrides_def)
  have "isinOverrides ?ov i = isinOverrides (loadLine (foldl loadLine noOverrides ls1) l) i"
    unfolding ov using assms(4) by (intro isinOverrides_foldl_skip) blast
  then have over: "getSymbolOverride ?ov i = Some k"
    using assms(2,3) by (simp add: getSymbolOverride_def isinOverrides_loadLine)
  have "i \<notin> manualIsins ?ov"
    unfolding ov using assms(2-5)
    by (auto simp: manualIsins_foldl manualIsins_loadLine noOverrides_def)
  then have man: "\<not> isManualIsin ?ov i" by (simp add: isManualIsin_def)
  have "k \<noteq> []" using assms(2) overrideEntry_nonempty by blast
  with over man show ?thesis
    by (simp add: resolveSecurity_def callGetSecurity_def split: sum.splits)
qed

theorem replacement_last_wins_witness:
  "split sampleOverrides [CHR 0x0A] =
     [''# manual securities'', ''US0378331005=US0378331005'', [], ''IE00B4L5Y983 = EUNL.DE'',
      ''not a pair''] @ ''IE00B4L5Y983=IWDA.AS'' # [''US0378331005=AAPL''] \<and>
   overrideEntry ''IE00B4L5Y983 = EUNL.DE'' = Some (''IE00B4L5Y983'', ''EUNL.DE'') \<and>
   overrideEntry ''IE00B4L5Y983=IWDA.AS'' = Some (''IE00B4L5Y983'', ''IWDA.AS'') \<and>
   resolveSecurity testEnv (loadIsinOverrides (Some sampleOverrides)) ''IE00B4L5Y983'' (Some ''EUR'') =
     (Inr (None, YAHOO), [(None, Some ''IWDA.AS'', None, Some ''EUR'')])"
proof -
  have h1: "split sampleOverrides [CHR 0x0A] =
     [''# manual securities'', ''US0378331005=US0378331005'', [], ''IE00B4L5Y983 = EUNL.DE'',
      ''not a pair''] @ ''IE00B4L5Y983=IWDA.AS'' # [''US0378331005=AAPL'']"
    by code_simp
  have h2: "overrideEntry ''IE00B4L5Y983=IWDA.AS'' = Some (''IE00B4L5Y983'', ''IWDA.AS'')"
    by code_simp
  have h3: "''IWDA.AS'' \<noteq> ''IE00B4L5Y983''" by simp
  have h4: "\<forall>l'\<in>set [''US0378331005=AAPL'']. \<forall>v. overrideEntry l' \<noteq> Some (''IE00B4L5Y983'', v)"
    by (simp add: overrideEntry_def Let_def trim_def isWhiteSpace_def startsWith_def split_def)
  have h5: "\<forall>l'\<in>set [''# manual securities'', ''US0378331005=US0378331005'', [],
      ''IE00B4L5Y983 = EUNL.DE'', ''not a pair'']. overrideEntry l' \<noteq> Some (''IE00B4L5Y983'', ''IE00B4L5Y983'')"
    by code_simp
  have h6: "overrideEntry ''IE00B4L5Y983 = EUNL.DE'' = Some (''IE00B4L5Y983'', ''EUNL.DE'')"
    by code_simp
  have g: "getSecurity testEnv None (Some ''IWDA.AS'') None (Some ''EUR'') = Inr None"
    by (simp add: testEnv_def)
  show ?thesis
    using replacement_last_wins [OF h1 h2 h3 h4 h5, of testEnv "Some ''EUR''"] h1 h2 h6 g
    by simp
qed

text \<open>
  C2 as stated fails for an identifier that is marked as manual first and given a
  replacement key later: the later line is stored, so that the identifier has both a
  manual mark and a replacement key, but the resolution still makes up the manual
  security and calls nothing, where the later line alone leads to a lookup by the key.
\<close>

theorem manual_not_overwritten:
  "overrideEntry ''US0378331005=US0378331005'' = Some (''US0378331005'', ''US0378331005'') \<and>
   overrideEntry ''US0378331005=AAPL'' = Some (''US0378331005'', ''AAPL'') \<and>
   isManualIsin (loadIsinOverrides (Some ''US0378331005=US0378331005\<newline>US0378331005=AAPL''))
      ''US0378331005'' \<and>
   getSymbolOverride
      (loadIsinOverrides (Some ''US0378331005=US0378331005\<newline>US0378331005=AAPL''))
      ''US0378331005'' = Some ''AAPL'' \<and>
   resolveSecurity testEnv
      (loadIsinOverrides (Some ''US0378331005=US0378331005\<newline>US0378331005=AAPL''))
      ''US0378331005'' (Some ''USD'') =
     (Inr (Some \<lparr>sec_symbol = ''GF_US0378331005'', sec_currency = ''USD'',
                 sec_name = ''US0378331005''\<rparr>, MANUAL), []) \<and>
   resolveSecurity testEnv (loadIsinOverrides (Some ''US0378331005=AAPL''))
      ''US0378331005'' (Some ''USD'') =
     (Inr (Some apple, YAHOO), [(None, Some ''AAPL'', None, Some ''USD'')])"
  by code_simp


subsection \<open>Searching in strings\<close>

text \<open>
  \<^verbatim>\<open>indexOf\<close> is above \<open>-1\<close> exactly for a string that contains the other one, and the
  price expression finds nothing exactly in a description without a digit that stands
  right before \<^verbatim>\<open>" PER SHARE"\<close>.
\<close>

lemma indexOf_contains: "indexOf s sub > - 1 \<longleftrightarrow> (\<exists>u v. s = u @ sub @ v)"
proof (induction s)
  case Nil
  show ?case by simp
next
  case (Cons c s)
  show ?case
  proof (cases "prefix sub (c # s)")
    case True
    then obtain v where "c # s = sub @ v" by (auto simp: prefix_def)
    then have "c # s = [] @ sub @ v" by simp
    then have "\<exists>u v. c # s = u @ sub @ v" by blast
    with True show ?thesis by simp
  next
    case False
    have "(\<exists>u v. c # s = u @ sub @ v) \<longleftrightarrow> (\<exists>u v. s = u @ sub @ v)"
    proof
      assume "\<exists>u v. c # s = u @ sub @ v"
      then obtain u v where uv: "c # s = u @ sub @ v" by blast
      with False have "u \<noteq> []" by (auto simp: prefix_def)
      then obtain u' where "u = c # u'" using uv by (cases u) auto
      with uv have "s = u' @ sub @ v" by simp
      then show "\<exists>u v. s = u @ sub @ v" by blast
    next
      assume "\<exists>u v. s = u @ sub @ v"
      then obtain u v where "s = u @ sub @ v" by blast
      then have "c # s = (c # u) @ sub @ v" by simp
      then show "\<exists>u v. c # s = u @ sub @ v" by blast
    qed
    moreover have "indexOf (c # s) sub =
        (if indexOf s sub < 0 then - 1 else indexOf s sub + 1)"
      using False by (simp add: Let_def)
    then have "indexOf (c # s) sub > - 1 \<longleftrightarrow> indexOf s sub > - 1" by auto
    ultimately show ?thesis using Cons by simp
  qed
qed

lemma not_isDigit_space: "\<not> isDigit CHR '' ''"
  by (simp add: isDigit_def)

lemma matchPerShareAt_digit:
  "isDigit c \<Longrightarrow> matchPerShareAt (c # '' PER SHARE'' @ v) = Some [c]"
  by (simp add: matchPerShareAt_def not_isDigit_space)

lemma matchPerShare_found:
  "isDigit c \<Longrightarrow> matchPerShare (u @ c # '' PER SHARE'' @ v) \<noteq> None"
proof (induction u)
  case Nil
  then show ?case using matchPerShareAt_digit [of c v] by simp
next
  case (Cons x u)
  then show ?case by (simp split: option.splits)
qed

lemma digits_snoc:
  assumes "takeWhile isDigit s \<noteq> []"
  shows "\<exists>c. isDigit c \<and> takeWhile isDigit s = butlast (takeWhile isDigit s) @ [c]"
proof -
  have "last (takeWhile isDigit s) \<in> set (takeWhile isDigit s)" using assms by simp
  then have "isDigit (last (takeWhile isDigit s))" by (rule set_takeWhileD [THEN conjunct2])
  then show ?thesis using assms by (intro exI [of _ "last (takeWhile isDigit s)"]) simp
qed

lemma matchPerShareAt_Some:
  assumes "matchPerShareAt s = Some m"
  shows "\<exists>u c v. isDigit c \<and> s = u @ c # '' PER SHARE'' @ v"
proof -
  let ?ds = "takeWhile isDigit s" and ?rest = "dropWhile isDigit s"
  have s: "s = ?ds @ ?rest" by simp
  from assms have ds: "?ds \<noteq> []"
    by (auto simp: matchPerShareAt_def Let_def split: if_splits)
  from assms ds obtain x r where rest: "?rest = x # r"
    by (cases ?rest) (auto simp: matchPerShareAt_def Let_def)
  show ?thesis
  proof (cases "x = CHR ''.''")
    case True
    let ?fs = "takeWhile isDigit r" and ?rest2 = "dropWhile isDigit r"
    from assms ds rest True have fs: "?fs \<noteq> []" and pre: "prefix '' PER SHARE'' ?rest2"
      by (auto simp: matchPerShareAt_def Let_def split: if_splits)
    from pre obtain v where v: "?rest2 = '' PER SHARE'' @ v" by (auto simp: prefix_def)
    from digits_snoc [OF fs] obtain c where c: "isDigit c" "?fs = butlast ?fs @ [c]" by blast
    have "r = ?fs @ ?rest2" by simp
    with c(2) v have "r = butlast ?fs @ c # '' PER SHARE'' @ v" by (metis append.assoc append_Cons append_Nil)
    with s rest have "s = (?ds @ x # butlast ?fs) @ c # '' PER SHARE'' @ v" by (metis append.assoc append_Cons)
    with c(1) show ?thesis by blast
  next
    case False
    from assms ds rest False have pre: "prefix '' PER SHARE'' ?rest"
      by (auto simp: matchPerShareAt_def Let_def split: if_splits)
    then obtain v where v: "?rest = '' PER SHARE'' @ v" by (auto simp: prefix_def)
    from digits_snoc [OF ds] obtain c where c: "isDigit c" "?ds = butlast ?ds @ [c]" by blast
    from s c(2) v have "s = butlast ?ds @ c # '' PER SHARE'' @ v" by (metis append.assoc append_Cons append_Nil)
    with c(1) show ?thesis by blast
  qed
qed

lemma matchPerShare_Some:
  "matchPerShare s = Some m \<Longrightarrow> \<exists>u c v. isDigit c \<and> s = u @ c # '' PER SHARE'' @ v"
proof (induction s)
  case Nil
  then show ?case by simp
next
  case (Cons x s)
  show ?case
  proof (cases "matchPerShareAt (x # s)")
    case (Some m')
    then show ?thesis by (rule matchPerShareAt_Some)
  next
    case None
    with Cons.prems have "matchPerShare s = Some m" by simp
    from Cons.IH [OF this] obtain u c v where "isDigit c" "s = u @ c # '' PER SHARE'' @ v"
      by blast
    then have "isDigit c \<and> x # s = (x # u) @ c # '' PER SHARE'' @ v" by simp
    then show ?thesis by blast
  qed
qed

lemma matchPerShare_None_iff:
  "matchPerShare s = None \<longleftrightarrow> \<not> (\<exists>u c v. isDigit c \<and> s = u @ c # '' PER SHARE'' @ v)"
  using matchPerShare_found matchPerShare_Some by (cases "matchPerShare s") blast+

lemma castType_samples:
  "castType ''BUY'' = ''buy'' \<and> castType ''Sell'' = ''sell'' \<and>
   castType ''DIVIDEND'' = ''dividend'' \<and> castType ''TAX'' = ''dividendTax'' \<and>
   castType ''Withholding Tax'' = ''dividendTax'' \<and> castType ''FEE'' = ''FEE''"
  by code_simp

subsection \<open>One record, and the loop\<close>

lemma recordCurrency_dividend:
  "rec_currency d \<noteq> [] \<Longrightarrow>
   recordCurrency (DividendRow d) =
     (if rec_currency d = ''GBX'' then Some ''GBp'' else Some (rec_currency d))"
  by (simp add: recordCurrency_def)

lemma processRecord_resolved:
  assumes "rowIsin r \<noteq> []"
    and "resolveSecurity env ov (rowIsin r) (recordCurrency r) = (Inr (Some sec, src), calls)"
  shows "processRecord env ov acts r =
           (convertRecord env acts r (recordCurrency r) sec src, calls)"
  using assms by (simp add: processRecord_def isIgnoredRecord_def)

lemma processRecord_throws:
  assumes "rowIsin r \<noteq> []"
    and "resolveSecurity env ov (rowIsin r) (recordCurrency r) = (Inl e, calls)"
  shows "processRecord env ov acts r = (Inl e, calls)"
  using assms by (simp add: processRecord_def isIgnoredRecord_def)

lemma processRecords_append:
  "processRecords env ov acts (pre @ rest) =
     (case processRecords env ov acts pre of
        (Inl e, calls) \<Rightarrow> (Inl e, calls)
      | (Inr acts', calls) \<Rightarrow>
          (case processRecords env ov acts' rest of (res, calls') \<Rightarrow> (res, calls @ calls')))"
  by (induction pre arbitrary: acts) (auto split: prod.splits sum.splits)

lemma processRecords_abort:
  assumes "processRecords env ov acts pre = (Inr acts', calls0)"
    and "processRecord env ov acts' r = (Inl e, calls)"
  shows "processRecords env ov acts (pre @ r # post) = (Inl e, calls0 @ calls)"
  using assms by (simp add: processRecords_append)

text \<open>The sample records, evaluated.\<close>

lemma resolve_apple:
  "resolveSecurity testEnv noOverrides ''US0378331005'' (Some ''USD'') =
     (Inr (Some apple, YAHOO), [(Some ''US0378331005'', None, None, Some ''USD'')])"
  by code_simp

lemma resolve_shell:
  "resolveSecurity testEnv noOverrides ''GB00B03MLX29'' (Some ''GBp'') =
     (Inr (Some shell, YAHOO), [(Some ''GB00B03MLX29'', None, None, Some ''GBp'')])"
  by code_simp

lemma processed_appleDividend:
  "processRecords testEnv noOverrides [] [DividendRow appleDividend] =
     (Inr [\<lparr>accountId = Some ''account-1'',
            comment = ''AAPL(US0378331005) CASH DIVIDEND USD 0.24 PER SHARE (Ordinary Dividend)'',
            fee = Some 0, quantity = Some 10, type = OrderTypeKey ''dividend'',
            unitPrice = Some (24 / 100), currency = Some ''USD'', dataSource = YAHOO,
            date = ''2023-01-05T00:00:00+00:00'', symbol = ''AAPL''\<rparr>],
      [(Some ''US0378331005'', None, None, Some ''USD'')])"
  by code_simp

lemma processed_appleBuy:
  "processRecords testEnv noOverrides [] [TradeRow appleBuy] =
     (Inr [\<lparr>accountId = Some ''account-1'', comment = [], fee = Some 1, quantity = Some 10,
            type = OrderTypeKey ''buy'', unitPrice = Some 150, currency = Some ''USD'',
            dataSource = YAHOO, date = ''2023-01-05T00:00:00+00:00'', symbol = ''AAPL''\<rparr>],
      [(Some ''US0378331005'', None, None, Some ''USD'')])"
  by code_simp

lemma processed_shellTax:
  "processRecords testEnv noOverrides [] [DividendRow shellTax] =
     (Inr [\<lparr>accountId = Some ''account-1'',
            comment = ''RDSA(GB00B03MLX29) CASH DIVIDEND GBX 12.5 PER SHARE - NL TAX'',
            fee = Some (75 / 2), quantity = Some 0, type = OrderTypeKey ''dividend'',
            unitPrice = Some (25 / 2), currency = Some ''GBp'', dataSource = YAHOO,
            date = ''2023-03-20T00:00:00+00:00'', symbol = ''RDSA.L''\<rparr>],
      [(Some ''GB00B03MLX29'', None, None, Some ''GBp'')])"
  by code_simp

text \<open>
  C7. A dividend record (one with a currency) that has an identifier and a security,
  and whose description contains \<open>in lieu of\<close> in any mix of cases, is a payment in
  lieu: one new activity is added at the end of the list, with the amount as its
  quantity, the unit price \<open>0\<close>, the fee \<open>0\<close> and the description as its comment.
  The matcher is not asked: the activities that are there stay as they are, whatever
  they are.
\<close>

theorem payment_in_lieu_appends:
  assumes "isin d \<noteq> []" and "rec_currency d \<noteq> []"
    and "resolveSecurity env ov (isin d) (recordCurrency (DividendRow d)) =
           (Inr (Some sec, src), calls)"
    and "\<exists>u v. toLocaleLowerCase (description d) = u @ ''in lieu of'' @ v"
  shows "processRecord env ov acts (DividendRow d) =
           (Inr (acts @
              [\<lparr>accountId = GHOSTFOLIO_ACCOUNT_ID env, comment = description d,
                fee = Some (num0 env), quantity = Some (amount d),
                type = OrderTypeKey ''dividend'', unitPrice = Some (num0 env),
                currency = recordCurrency (DividendRow d), dataSource = src,
                date = dayjsFormat env (Some ''YYYYMMDD'') (rec_date d),
                symbol = sec_symbol sec\<rparr>]), calls)"
proof -
  have "indexOf (toLocaleLowerCase (description d)) ''in lieu of'' > - 1"
    using assms(4) by (simp add: indexOf_contains)
  then show ?thesis
    using assms(1-3) by (simp add: processRecord_resolved convertRecord_def)
qed

text \<open>
  The payment in lieu is added although the dividend in the list has its symbol,
  currency, date and first 20 characters.
\<close>

theorem payment_in_lieu_appends_witness:
  "exactDividendMatch testEnv applePaymentInLieu ''AAPL''
     \<lparr>accountId = Some ''account-1'',
      comment = ''AAPL(US0378331005) CASH DIVIDEND USD 0.24 PER SHARE (Ordinary Dividend)'',
      fee = Some 0, quantity = Some 10, type = OrderTypeKey ''dividend'',
      unitPrice = Some (24 / 100), currency = Some ''USD'', dataSource = YAHOO,
      date = ''2023-01-05T00:00:00+00:00'', symbol = ''AAPL''\<rparr> \<and>
   processRecord testEnv noOverrides
     [\<lparr>accountId = Some ''account-1'',
       comment = ''AAPL(US0378331005) CASH DIVIDEND USD 0.24 PER SHARE (Ordinary Dividend)'',
       fee = Some 0, quantity = Some 10, type = OrderTypeKey ''dividend'',
       unitPrice = Some (24 / 100), currency = Some ''USD'', dataSource = YAHOO,
       date = ''2023-01-05T00:00:00+00:00'', symbol = ''AAPL''\<rparr>]
     (DividendRow applePaymentInLieu) =
     (Inr [\<lparr>accountId = Some ''account-1'',
            comment = ''AAPL(US0378331005) CASH DIVIDEND USD 0.24 PER SHARE (Ordinary Dividend)'',
            fee = Some 0, quantity = Some 10, type = OrderTypeKey ''dividend'',
            unitPrice = Some (24 / 100), currency = Some ''USD'', dataSource = YAHOO,
            date = ''2023-01-05T00:00:00+00:00'', symbol = ''AAPL''\<rparr>,
           \<lparr>accountId = Some ''account-1'',
            comment = ''AAPL(US0378331005) CASH DIVIDEND USD 0.24 PER SHARE - PAYMENT IN LIEU OF DIVIDEND'',
            fee = Some 0, quantity = Some (12 / 10), type = OrderTypeKey ''dividend'',
            unitPrice = Some 0, currency = Some ''USD'', dataSource = YAHOO,
            date = ''2023-01-05T00:00:00+00:00'', symbol = ''AAPL''\<rparr>],
      [(Some ''US0378331005'', None, None, Some ''USD'')])"
proof -
  have h1: "isin applePaymentInLieu \<noteq> []" and h2: "rec_currency applePaymentInLieu \<noteq> []"
    by (simp_all add: applePaymentInLieu_def)
  have h3: "resolveSecurity testEnv noOverrides (isin applePaymentInLieu)
      (recordCurrency (DividendRow applePaymentInLieu)) =
      (Inr (Some apple, YAHOO), [(Some ''US0378331005'', None, None, Some ''USD'')])"
    using resolve_apple by (simp add: applePaymentInLieu_def recordCurrency_def)
  have "indexOf (toLocaleLowerCase (description applePaymentInLieu)) ''in lieu of'' > - 1"
    by code_simp
  then have h4: "\<exists>u v. toLocaleLowerCase (description applePaymentInLieu) = u @ ''in lieu of'' @ v"
    by (simp only: indexOf_contains)
  have m: "exactDividendMatch testEnv applePaymentInLieu ''AAPL''
     \<lparr>accountId = Some ''account-1'',
      comment = ''AAPL(US0378331005) CASH DIVIDEND USD 0.24 PER SHARE (Ordinary Dividend)'',
      fee = Some 0, quantity = Some 10, type = OrderTypeKey ''dividend'',
      unitPrice = Some (24 / 100), currency = Some ''USD'', dataSource = YAHOO,
      date = ''2023-01-05T00:00:00+00:00'', symbol = ''AAPL''\<rparr>"
    by code_simp
  have vals: "GHOSTFOLIO_ACCOUNT_ID testEnv = Some ''account-1''" "num0 testEnv = 0"
    "description applePaymentInLieu =
       ''AAPL(US0378331005) CASH DIVIDEND USD 0.24 PER SHARE - PAYMENT IN LIEU OF DIVIDEND''"
    "amount applePaymentInLieu = 12 / 10"
    "recordCurrency (DividendRow applePaymentInLieu) = Some ''USD''"
    "dayjsFormat testEnv (Some ''YYYYMMDD'') (rec_date applePaymentInLieu) =
       ''2023-01-05T00:00:00+00:00''"
    "sec_symbol apple = ''AAPL''"
    by code_simp+
  show ?thesis
    using payment_in_lieu_appends [OF h1 h2 h3 h4] m
    by (simp only: vals append.simps simp_thms)
qed

text \<open>
  C10. A dividend record of the type \<open>dividendTax\<close> that is not a payment in lieu, has
  a price in its description and finds no matching activity adds an activity of the
  order type \<open>dividend\<close>, with the quantity \<open>0\<close>, the price of the description as its
  unit price, the absolute amount as its fee and the description as its comment.
\<close>

theorem unmatched_tax_row:
  assumes "isin d \<noteq> []" and "rec_currency d \<noteq> []"
    and "resolveSecurity env ov (isin d) (recordCurrency (DividendRow d)) =
           (Inr (Some sec, src), calls)"
    and "rec_type d = ''dividendTax''"
    and "\<not> indexOf (toLocaleLowerCase (description d)) ''in lieu of'' > - 1"
    and "matchPerShare (description d) = Some m"
    and "findExactDividendMatch env d (sec_symbol sec) acts = None"
  shows "processRecord env ov acts (DividendRow d) =
           (Inr (acts @
              [\<lparr>accountId = GHOSTFOLIO_ACCOUNT_ID env, comment = description d,
                fee = Some (mathAbs env (amount d)), quantity = Some (num0 env),
                type = OrderTypeKey ''dividend'', unitPrice = Some (parseFloat env m),
                currency = recordCurrency (DividendRow d), dataSource = src,
                date = dayjsFormat env (Some ''YYYYMMDD'') (rec_date d),
                symbol = sec_symbol sec\<rparr>]), calls)"
  using assms by (simp add: processRecord_resolved convertRecord_def)

theorem unmatched_tax_row_witness:
  "processRecord testEnv noOverrides [] (DividendRow appleTax) =
     (Inr [\<lparr>accountId = Some ''account-1'',
            comment = ''AAPL(US0378331005) CASH DIVIDEND USD 0.24 PER SHARE - US TAX'',
            fee = Some (36 / 100), quantity = Some 0, type = OrderTypeKey ''dividend'',
            unitPrice = Some (24 / 100), currency = Some ''USD'', dataSource = YAHOO,
            date = ''2023-01-05T00:00:00+00:00'', symbol = ''AAPL''\<rparr>],
      [(Some ''US0378331005'', None, None, Some ''USD'')])"
proof -
  have h1: "isin appleTax \<noteq> []" and h2: "rec_currency appleTax \<noteq> []"
    and h4: "rec_type appleTax = ''dividendTax''"
    by (simp_all add: appleTax_def)
  have h3: "resolveSecurity testEnv noOverrides (isin appleTax)
      (recordCurrency (DividendRow appleTax)) =
      (Inr (Some apple, YAHOO), [(Some ''US0378331005'', None, None, Some ''USD'')])"
    using resolve_apple by (simp add: appleTax_def recordCurrency_def)
  have h5: "\<not> indexOf (toLocaleLowerCase (description appleTax)) ''in lieu of'' > - 1"
    by code_simp
  have h6: "matchPerShare (description appleTax) = Some ''0.24''"
    by code_simp
  have h7: "findExactDividendMatch testEnv appleTax (sec_symbol apple) [] = None"
    by (simp add: findExactDividendMatch_def)
  have vals: "GHOSTFOLIO_ACCOUNT_ID testEnv = Some ''account-1''" "num0 testEnv = 0"
    "description appleTax = ''AAPL(US0378331005) CASH DIVIDEND USD 0.24 PER SHARE - US TAX''"
    "mathAbs testEnv (amount appleTax) = 36 / 100"
    "parseFloat testEnv ''0.24'' = 24 / 100"
    "recordCurrency (DividendRow appleTax) = Some ''USD''"
    "dayjsFormat testEnv (Some ''YYYYMMDD'') (rec_date appleTax) = ''2023-01-05T00:00:00+00:00''"
    "sec_symbol apple = ''AAPL''"
    by code_simp+
  show ?thesis
    using unmatched_tax_row [OF h1 h2 h3 h4 h5 h6 h7]
    by (simp only: vals append.simps)
qed

text \<open>
  C5. A dividend record that reaches the classification (it has an identifier and a
  security), is not a payment in lieu and has no digit right before \<^verbatim>\<open>" PER SHARE"\<close> in
  its description makes the run end with the error callback, called once with the
  \<^verbatim>\<open>TypeError\<close>; the success callback is not called, so no activity of this record, of
  the records before or of the records after it is delivered, and no record after it is
  looked up.
\<close>

theorem missing_price_aborts:
  assumes "processRecords env ov [] pre = (Inr acts, calls0)"
    and "isin d \<noteq> []" and "rec_currency d \<noteq> []"
    and "resolveSecurity env ov (isin d) (recordCurrency (DividendRow d)) =
           (Inr (Some sec, src), calls)"
    and "\<not> (\<exists>u v. toLocaleLowerCase (description d) = u @ ''in lieu of'' @ v)"
    and "\<not> (\<exists>u c v. isDigit c \<and> description d = u @ c # '' PER SHARE'' @ v)"
  shows "processFileContents env ov None (Some (pre @ DividendRow d # post)) =
           ([errorCallback TypeError], calls0 @ calls)"
proof -
  have pil: "\<not> indexOf (toLocaleLowerCase (description d)) ''in lieu of'' > - 1"
    using assms(5) by (simp add: indexOf_contains)
  have "matchPerShare (description d) = None"
    using assms(6) by (simp add: matchPerShare_None_iff)
  with pil have "processRecord env ov acts (DividendRow d) = (Inl TypeError, calls)"
    using assms(2-4) by (simp add: processRecord_resolved convertRecord_def)
  with assms(1) have "processRecords env ov [] (pre @ DividendRow d # post) =
      (Inl TypeError, calls0 @ calls)"
    by (rule processRecords_abort)
  then show ?thesis by (simp add: processFileContents_def)
qed

theorem missing_price_aborts_witness:
  "processFileContents testEnv noOverrides None
     (Some ([DividendRow appleDividend] @ DividendRow appleNoPrice # [TradeRow appleBuy])) =
     ([errorCallback TypeError],
      [(Some ''US0378331005'', None, None, Some ''USD'')] @
      [(Some ''US0378331005'', None, None, Some ''USD'')])"
proof -
  have h1: "isin appleNoPrice \<noteq> []" and h2: "rec_currency appleNoPrice \<noteq> []"
    by (simp_all add: appleNoPrice_def)
  have h3: "resolveSecurity testEnv noOverrides (isin appleNoPrice)
      (recordCurrency (DividendRow appleNoPrice)) =
      (Inr (Some apple, YAHOO), [(Some ''US0378331005'', None, None, Some ''USD'')])"
    using resolve_apple by (simp add: appleNoPrice_def recordCurrency_def)
  have "\<not> indexOf (toLocaleLowerCase (description appleNoPrice)) ''in lieu of'' > - 1"
    by code_simp
  then have h4: "\<not> (\<exists>u v. toLocaleLowerCase (description appleNoPrice) = u @ ''in lieu of'' @ v)"
    by (simp only: indexOf_contains not_False_eq_True)
  have "matchPerShare (description appleNoPrice) = None"
    by code_simp
  then have h5: "\<not> (\<exists>u c v. isDigit c \<and> description appleNoPrice = u @ c # '' PER SHARE'' @ v)"
    using matchPerShare_None_iff [of "description appleNoPrice"] by blast
  show ?thesis
    using missing_price_aborts [OF processed_appleDividend h1 h2 h3 h4 h5] by simp
qed

text \<open>
  C4. When the parser reports an error, returns no records or returns an empty list, and
  when the security service throws for a record, the error callback is called exactly
  once and the success callback is not called. The run stops at the failing record: the
  records after it cause no call of the security service.
\<close>

theorem fatal_conditions_report_one_error:
  "(err \<noteq> None \<or> records = None \<or> records = Some [] \<longrightarrow>
      processFileContents env ov err records =
        ([errorCallback (Error (parseErrorMsg err))], [])) \<and>
   (processRecords env ov [] pre = (Inr acts, calls0) \<and> \<not> isIgnoredRecord r \<and>
    resolveSecurity env ov (rowIsin r) (recordCurrency r) = (Inl e, calls) \<longrightarrow>
      processFileContents env ov None (Some (pre @ r # post)) =
        ([errorCallback e], calls0 @ calls))"
proof (intro conjI impI)
  assume "err \<noteq> None \<or> records = None \<or> records = Some []"
  then show "processFileContents env ov err records =
      ([errorCallback (Error (parseErrorMsg err))], [])"
    by (auto simp: processFileContents_def split: option.splits)
next
  assume a: "processRecords env ov [] pre = (Inr acts, calls0) \<and> \<not> isIgnoredRecord r \<and>
    resolveSecurity env ov (rowIsin r) (recordCurrency r) = (Inl e, calls)"
  then have "processRecord env ov acts r = (Inl e, calls)"
    by (simp add: processRecord_def)
  with a have "processRecords env ov [] (pre @ r # post) = (Inl e, calls0 @ calls)"
    by (simp add: processRecords_abort)
  then show "processFileContents env ov None (Some (pre @ r # post)) =
      ([errorCallback e], calls0 @ calls)"
    by (simp add: processFileContents_def)
qed

theorem fatal_conditions_report_one_error_witness:
  "processFileContents testEnv noOverrides (Some ''Invalid Record Length'') None =
     ([errorCallback (Error ''An error occurred while parsing! Details: Invalid Record Length'')],
      []) \<and>
   processFileContents testEnv noOverrides None
     (Some ([TradeRow appleBuy] @ TradeRow failingBuy # [DividendRow appleDividend])) =
     ([errorCallback (Thrown ''service unavailable'')],
      [(Some ''US0378331005'', None, None, Some ''USD'')] @
      [(Some ''XX0000000000'', None, None, Some ''USD'')])"
proof -
  have h1: "\<not> isIgnoredRecord (TradeRow failingBuy)"
    by (simp add: isIgnoredRecord_def failingBuy_def)
  have h2: "resolveSecurity testEnv noOverrides (rowIsin (TradeRow failingBuy))
      (recordCurrency (TradeRow failingBuy)) =
      (Inl (Thrown ''service unavailable''), [(Some ''XX0000000000'', None, None, Some ''USD'')])"
    by code_simp
  have m: "parseErrorMsg (Some ''Invalid Record Length'') =
      ''An error occurred while parsing! Details: Invalid Record Length''"
    by (simp add: parseErrorMsg_def)
  show ?thesis
    using fatal_conditions_report_one_error
        [of "Some ''Invalid Record Length''" None testEnv noOverrides "[TradeRow appleBuy]"
          _ _ "TradeRow failingBuy" _ _ "[DividendRow appleDividend]"]
      processed_appleBuy h1 h2 m
    by simp
qed

subsection \<open>Records in GBX\<close>

lemma set_updateFirst: "set (updateFirst P f xs) \<subseteq> set xs \<union> f ` set xs"
  by (induction xs) auto

lemma find_snoc:
  "find P xs = None \<Longrightarrow> find P (xs @ [x]) = (if P x then Some x else None)"
  by (induction xs) (auto split: if_splits)

lemma updateFirst_snoc:
  "find P xs = None \<Longrightarrow> updateFirst P f (xs @ [x]) = xs @ [if P x then f x else x]"
  by (induction xs) (auto split: if_splits)

lemma recordCurrency_not_GBX: "recordCurrency r \<noteq> Some ''GBX''"
  by (simp add: recordCurrency_def)


lemma noGBX_updateFirst:
  assumes "noGBX acts" and "\<And>a. currency (f a) = currency a"
  shows "noGBX (updateFirst P f acts)"
  using assms set_updateFirst [of P f acts] by (fastforce simp: noGBX_def)

lemma noGBX_convertRecord:
  assumes "cur \<noteq> Some ''GBX''" and "noGBX acts"
    and "convertRecord env acts r cur sec src = Inr acts'"
  shows "noGBX acts'"
proof (cases r)
  case (TradeRow t)
  with assms show ?thesis by (auto simp: convertRecord_def noGBX_def)
next
  case (DividendRow d)
  with assms show ?thesis
    by (auto simp: convertRecord_def Let_def noGBX_updateFirst
          split: if_splits option.splits)
       (auto simp: noGBX_def)
qed

lemma noGBX_processRecord:
  assumes "noGBX acts" and "processRecord env ov acts r = (Inr acts', calls)"
  shows "noGBX acts'"
  using assms
  by (auto simp: processRecord_def split: if_splits prod.splits sum.splits option.splits
        intro: noGBX_convertRecord [OF recordCurrency_not_GBX])

lemma noGBX_processRecords:
  "noGBX acts \<Longrightarrow> processRecords env ov acts rs = (Inr acts', calls) \<Longrightarrow> noGBX acts'"
proof (induction rs arbitrary: acts calls)
  case Nil
  then show ?case by simp
next
  case (Cons r rs)
  then show ?case
    by (auto split: prod.splits sum.splits dest: noGBX_processRecord)
qed

lemma noGBX_no_match:
  "noGBX acts \<Longrightarrow> rec_currency d = ''GBX'' \<Longrightarrow> findExactDividendMatch env d symb acts = None"
  by (auto simp: findExactDividendMatch_def find_None_iff exactDividendMatch_def noGBX_def)

text \<open>
  C8. After any records, a dividend record with the currency \<open>GBX\<close> finds no matching
  activity, since the activities carry \<open>GBp\<close> and the matcher compares with the
  \<open>GBX\<close> of the record. Such a record, when it is a payment in lieu or has a price,
  adds its own activity with the currency \<open>GBp\<close>; a dividend and its tax in
  \<open>GBX\<close> do not merge.
\<close>

theorem gbx_rows_never_merge:
  assumes "processRecords env ov [] pre = (Inr acts, calls0)"
    and "isin d \<noteq> []" and "rec_currency d = ''GBX''"
    and "resolveSecurity env ov (isin d) (Some ''GBp'') = (Inr (Some sec, src), calls)"
    and "(\<exists>u v. toLocaleLowerCase (description d) = u @ ''in lieu of'' @ v) \<or>
         (\<exists>u c v. isDigit c \<and> description d = u @ c # '' PER SHARE'' @ v)"
  shows "findExactDividendMatch env d (sec_symbol sec) acts = None \<and>
         (\<exists>a. processRecord env ov acts (DividendRow d) = (Inr (acts @ [a]), calls) \<and>
              currency a = Some ''GBp'')"
proof -
  have "noGBX acts"
    using assms(1) by (rule noGBX_processRecords [rotated]) (simp add: noGBX_def)
  then have none: "findExactDividendMatch env d (sec_symbol sec) acts = None"
    using assms(3) by (rule noGBX_no_match)
  have cur: "recordCurrency (DividendRow d) = Some ''GBp''"
    using assms(3) by (simp add: recordCurrency_def)
  have step: "processRecord env ov acts (DividendRow d) =
      (convertRecord env acts (DividendRow d) (Some ''GBp'') sec src, calls)"
    using assms(2,4) cur by (simp add: processRecord_resolved)
  have "\<exists>a. convertRecord env acts (DividendRow d) (Some ''GBp'') sec src = Inr (acts @ [a]) \<and>
      currency a = Some ''GBp''"
  proof (cases "indexOf (toLocaleLowerCase (description d)) ''in lieu of'' > - 1")
    case True
    then show ?thesis using assms(3) by (simp add: convertRecord_def)
  next
    case False
    with assms(5) have "matchPerShare (description d) \<noteq> None"
      by (simp add: indexOf_contains matchPerShare_None_iff)
    then obtain m where "matchPerShare (description d) = Some m" by blast
    with False none show ?thesis using assms(3) by (simp add: convertRecord_def Let_def)
  qed
  with none step show ?thesis by simp
qed

theorem gbx_rows_never_merge_witness:
  "processRecords testEnv noOverrides [] [DividendRow shellTax, DividendRow shellDividend] =
     (Inr [\<lparr>accountId = Some ''account-1'',
            comment = ''RDSA(GB00B03MLX29) CASH DIVIDEND GBX 12.5 PER SHARE - NL TAX'',
            fee = Some (75 / 2), quantity = Some 0, type = OrderTypeKey ''dividend'',
            unitPrice = Some (25 / 2), currency = Some ''GBp'', dataSource = YAHOO,
            date = ''2023-03-20T00:00:00+00:00'', symbol = ''RDSA.L''\<rparr>,
           \<lparr>accountId = Some ''account-1'',
            comment = ''RDSA(GB00B03MLX29) CASH DIVIDEND GBX 12.5 PER SHARE (Ordinary Dividend)'',
            fee = Some 0, quantity = Some 20, type = OrderTypeKey ''dividend'',
            unitPrice = Some (25 / 2), currency = Some ''GBp'', dataSource = YAHOO,
            date = ''2023-03-20T00:00:00+00:00'', symbol = ''RDSA.L''\<rparr>],
      [(Some ''GB00B03MLX29'', None, None, Some ''GBp''),
       (Some ''GB00B03MLX29'', None, None, Some ''GBp'')])"
proof -
  let ?acts = "[\<lparr>accountId = Some ''account-1'',
            comment = ''RDSA(GB00B03MLX29) CASH DIVIDEND GBX 12.5 PER SHARE - NL TAX'',
            fee = Some (75 / 2), quantity = Some 0, type = OrderTypeKey ''dividend'',
            unitPrice = Some (25 / 2 :: rat), currency = Some ''GBp'', dataSource = YAHOO,
            date = ''2023-03-20T00:00:00+00:00'', symbol = ''RDSA.L''\<rparr>]"
  have h1: "isin shellDividend \<noteq> []" and h2: "rec_currency shellDividend = ''GBX''"
    by (simp_all add: shellDividend_def)
  have h3: "resolveSecurity testEnv noOverrides (isin shellDividend) (Some ''GBp'') =
      (Inr (Some shell, YAHOO), [(Some ''GB00B03MLX29'', None, None, Some ''GBp'')])"
    using resolve_shell by (simp add: shellDividend_def)
  have "matchPerShare (description shellDividend) \<noteq> None" by code_simp
  then have h4: "(\<exists>u v. toLocaleLowerCase (description shellDividend) = u @ ''in lieu of'' @ v) \<or>
      (\<exists>u c v. isDigit c \<and> description shellDividend = u @ c # '' PER SHARE'' @ v)"
    by (simp add: matchPerShare_None_iff)
  from gbx_rows_never_merge [OF processed_shellTax h1 h2 h3 h4]
  obtain a where a: "processRecord testEnv noOverrides ?acts (DividendRow shellDividend) =
      (Inr (?acts @ [a]), [(Some ''GB00B03MLX29'', None, None, Some ''GBp'')])"
    by blast
  have "processRecord testEnv noOverrides ?acts (DividendRow shellDividend) =
      (Inr (?acts @ [\<lparr>accountId = Some ''account-1'',
            comment = ''RDSA(GB00B03MLX29) CASH DIVIDEND GBX 12.5 PER SHARE (Ordinary Dividend)'',
            fee = Some 0, quantity = Some 20, type = OrderTypeKey ''dividend'',
            unitPrice = Some (25 / 2), currency = Some ''GBp'', dataSource = YAHOO,
            date = ''2023-03-20T00:00:00+00:00'', symbol = ''RDSA.L''\<rparr>]),
       [(Some ''GB00B03MLX29'', None, None, Some ''GBp'')])"
    by code_simp
  with a have val: "a = \<lparr>accountId = Some ''account-1'',
            comment = ''RDSA(GB00B03MLX29) CASH DIVIDEND GBX 12.5 PER SHARE (Ordinary Dividend)'',
            fee = Some 0, quantity = Some 20, type = OrderTypeKey ''dividend'',
            unitPrice = Some (25 / 2), currency = Some ''GBp'', dataSource = YAHOO,
            date = ''2023-03-20T00:00:00+00:00'', symbol = ''RDSA.L''\<rparr>"
    by simp
  have "processRecords testEnv noOverrides ?acts [DividendRow shellDividend] =
      (Inr (?acts @ [a]), [(Some ''GB00B03MLX29'', None, None, Some ''GBp'')])"
    using a by simp
  then have "processRecords testEnv noOverrides []
      ([DividendRow shellTax] @ [DividendRow shellDividend]) =
      (Inr (?acts @ [a]), [(Some ''GB00B03MLX29'', None, None, Some ''GBp'')] @
        [(Some ''GB00B03MLX29'', None, None, Some ''GBp'')])"
    by (simp only: processRecords_append processed_shellTax prod.case sum.case)
  then show ?thesis by (simp only: val append.simps)
qed

subsection \<open>A dividend and its tax\<close>

text \<open>
  Records that do not match an activity leave it where it is and as it is, and work on
  the other activities as they do without it. The fields that the matcher reads never
  change in an activity, so the activities of the earlier records never come to match.
\<close>

lemma length_updateFirst: "length (updateFirst Q f xs) = length xs"
  by (induction xs) auto

lemma find_skip: "\<not> Q a \<Longrightarrow> find Q (xs @ a # ys) = find Q (xs @ ys)"
  by (induction xs) auto

lemma updateFirst_skip:
  "\<not> Q a \<Longrightarrow>
   updateFirst Q f (xs @ a # ys) =
     take (length xs) (updateFirst Q f (xs @ ys)) @ a #
     drop (length xs) (updateFirst Q f (xs @ ys))"
  by (induction xs) auto

lemma find_first: "find Q xs = None \<Longrightarrow> Q a \<Longrightarrow> find Q (xs @ a # ys) = Some a"
  by (induction xs) (auto split: if_splits)

lemma updateFirst_first:
  "find Q xs = None \<Longrightarrow> Q a \<Longrightarrow> updateFirst Q f (xs @ a # ys) = xs @ f a # ys"
  by (induction xs) (auto split: if_splits)

lemma map_key_updateFirst:
  "(\<And>a. Q a \<Longrightarrow> matchKey (f a) = matchKey a) \<Longrightarrow>
   map matchKey (updateFirst Q f xs) = map matchKey xs"
  by (induction xs) auto

lemma exactDividendMatch_key:
  "matchKey a = matchKey b \<Longrightarrow> exactDividendMatch env x s a = exactDividendMatch env x s b"
  by (auto simp: matchKey_def exactDividendMatch_def)

lemma rowMatches_key:
  "matchKey a = matchKey b \<Longrightarrow> rowMatches env ov r a = rowMatches env ov r b"
  by (auto simp: rowMatches_def exactDividendMatch_key [of a b]
        split: record_row.splits prod.splits sum.splits option.splits)

lemma convertRecord_keys:
  assumes "convertRecord env zs r cur sec src = Inr zs'"
  shows "prefix (map matchKey zs) (map matchKey zs')"
proof (cases r)
  case (TradeRow t)
  with assms show ?thesis by (auto simp: convertRecord_def)
next
  case (DividendRow x)
  have k1: "map matchKey (updateFirst (exactDividendMatch env x s)
      (\<lambda>a. a\<lparr>comment := description x, unitPrice := p, quantity := q\<rparr>) zs) = map matchKey zs"
    for s p q
    by (rule map_key_updateFirst) (auto simp: matchKey_def exactDividendMatch_def)
  have k2: "map matchKey (updateFirst (exactDividendMatch env x s) (\<lambda>a. a\<lparr>fee := v\<rparr>) zs) =
      map matchKey zs" for s v
    by (rule map_key_updateFirst) (auto simp: matchKey_def)
  from assms DividendRow show ?thesis
    by (auto simp: convertRecord_def Let_def k1 k2 split: if_splits option.splits)
qed

lemma processRecord_keys:
  assumes "processRecord env ov zs r = (Inr zs', calls)"
  shows "prefix (map matchKey zs) (map matchKey zs')"
  using assms
  by (auto simp: processRecord_def split: if_splits prod.splits sum.splits option.splits
        intro: convertRecord_keys)

lemma processRecords_keys:
  "processRecords env ov zs rs = (Inr zs', calls) \<Longrightarrow>
   prefix (map matchKey zs) (map matchKey zs')"
proof (induction rs arbitrary: zs calls)
  case Nil
  then show ?case by simp
next
  case (Cons r rs)
  then show ?case
    by (auto split: prod.splits sum.splits dest!: processRecord_keys
          intro: prefix_order.trans)
qed

lemma no_match_kept:
  assumes "find (exactDividendMatch env x s) acts = None"
    and "processRecords env ov acts rs = (Inr zs, calls)"
  shows "length acts \<le> length zs \<and>
         find (exactDividendMatch env x s) (take (length acts) zs) = None"
proof -
  from processRecords_keys [OF assms(2)] obtain ks
    where ks: "map matchKey zs = map matchKey acts @ ks"
    by (auto simp: prefix_def)
  then have len: "length acts \<le> length zs"
    by (metis length_append length_map le_add1)
  from ks have "take (length acts) (map matchKey zs) = map matchKey acts"
    by simp
  then have keys: "map matchKey (take (length acts) zs) = map matchKey acts"
    by (simp add: take_map)
  have "\<not> exactDividendMatch env x s a" if "a \<in> set (take (length acts) zs)" for a
  proof -
    from that have "matchKey a \<in> set (map matchKey (take (length acts) zs))" by simp
    with keys obtain b where b: "b \<in> set acts" "matchKey b = matchKey a" by auto
    from assms(1) b(1) have "\<not> exactDividendMatch env x s b" by (auto simp: find_None_iff)
    with b(2) show ?thesis using exactDividendMatch_key [of b a env x s] by simp
  qed
  with len show ?thesis by (auto simp: find_None_iff)
qed

lemma convertRecord_length:
  "convertRecord env zs r cur sec src = Inr zs' \<Longrightarrow> length zs \<le> length zs'"
  by (auto simp: convertRecord_def Let_def length_updateFirst
        split: record_row.splits if_splits option.splits)

lemma convertRecord_frame:
  assumes "\<And>x. r = DividendRow x \<Longrightarrow> rec_currency x \<noteq> [] \<Longrightarrow>
      \<not> indexOf (toLocaleLowerCase (description x)) ''in lieu of'' > - 1 \<Longrightarrow>
      \<not> exactDividendMatch env x (sec_symbol sec) a"
  shows "convertRecord env (xs @ a # ys) r cur sec src =
     (case convertRecord env (xs @ ys) r cur sec src of
        Inl e \<Rightarrow> Inl e
      | Inr zs \<Rightarrow> Inr (take (length xs) zs @ a # drop (length xs) zs))"
proof (cases r)
  case (TradeRow t)
  then show ?thesis by (simp add: convertRecord_def)
next
  case (DividendRow x)
  show ?thesis
  proof (cases "rec_currency x \<noteq> [] \<and>
      \<not> indexOf (toLocaleLowerCase (description x)) ''in lieu of'' > - 1")
    case True
    with assms DividendRow have "\<not> exactDividendMatch env x (sec_symbol sec) a" by blast
    with True DividendRow show ?thesis
      by (simp add: convertRecord_def Let_def findExactDividendMatch_def find_skip
            updateFirst_skip split: option.splits)
  next
    case False
    with DividendRow show ?thesis by (auto simp: convertRecord_def)
  qed
qed

lemma processRecord_frame:
  assumes "\<not> rowMatches env ov r a"
  shows "processRecord env ov (xs @ a # ys) r =
     (case processRecord env ov (xs @ ys) r of
        (Inl e, calls) \<Rightarrow> (Inl e, calls)
      | (Inr zs, calls) \<Rightarrow> (Inr (take (length xs) zs @ a # drop (length xs) zs), calls))"
proof (cases "isIgnoredRecord r")
  case True
  then show ?thesis by (simp add: processRecord_def)
next
  case False
  obtain res calls where res: "resolveSecurity env ov (rowIsin r) (recordCurrency r) = (res, calls)"
    by (cases "resolveSecurity env ov (rowIsin r) (recordCurrency r)") auto
  show ?thesis
  proof (cases res)
    case (Inl e)
    with False res show ?thesis by (simp add: processRecord_def)
  next
    case (Inr p)
    obtain so src where p: "p = (so, src)" by (cases p) auto
    show ?thesis
    proof (cases so)
      case None
      with False res Inr p show ?thesis by (simp add: processRecord_def)
    next
      case (Some sec)
      have "\<not> exactDividendMatch env x (sec_symbol sec) a"
        if "r = DividendRow x" "rec_currency x \<noteq> []"
          "\<not> indexOf (toLocaleLowerCase (description x)) ''in lieu of'' > - 1" for x
        using assms that False res Inr p Some
        by (simp add: rowMatches_def isIgnoredRecord_def)
      then have "convertRecord env (xs @ a # ys) r (recordCurrency r) sec src =
         (case convertRecord env (xs @ ys) r (recordCurrency r) sec src of
            Inl e \<Rightarrow> Inl e
          | Inr zs \<Rightarrow> Inr (take (length xs) zs @ a # drop (length xs) zs))"
        by (rule convertRecord_frame)
      with False res Inr p Some show ?thesis
        by (simp add: processRecord_def split: sum.splits)
    qed
  qed
qed

lemma processRecord_length:
  "processRecord env ov zs r = (Inr zs', calls) \<Longrightarrow> length zs \<le> length zs'"
  by (auto simp: processRecord_def split: if_splits prod.splits sum.splits option.splits
        dest: convertRecord_length)

lemma processRecords_frame:
  "\<forall>r\<in>set rs. \<not> rowMatches env ov r a \<Longrightarrow> n \<le> length zs \<Longrightarrow>
   processRecords env ov (take n zs @ a # drop n zs) rs =
     (case processRecords env ov zs rs of
        (Inl e, calls) \<Rightarrow> (Inl e, calls)
      | (Inr zs', calls) \<Rightarrow> (Inr (take n zs' @ a # drop n zs'), calls))"
proof (induction rs arbitrary: zs)
  case Nil
  then show ?case by simp
next
  case (Cons r rs)
  from Cons.prems have nm: "\<not> rowMatches env ov r a" by simp
  have step: "processRecord env ov (take n zs @ a # drop n zs) r =
     (case processRecord env ov zs r of
        (Inl e, calls) \<Rightarrow> (Inl e, calls)
      | (Inr zs', calls) \<Rightarrow> (Inr (take n zs' @ a # drop n zs'), calls))"
  proof -
    have ln: "length (take n zs) = n" using Cons.prems(2) by simp
    show ?thesis
      using processRecord_frame [OF nm, of "take n zs" "drop n zs"] unfolding ln by simp
  qed
  obtain res calls where res: "processRecord env ov zs r = (res, calls)"
    by (cases "processRecord env ov zs r") auto
  show ?case
  proof (cases res)
    case (Inl e)
    with res step show ?thesis by simp
  next
    case (Inr zs')
    with res have "n \<le> length zs'"
      using processRecord_length [of env ov zs r zs' calls] Cons.prems(2) by simp
    with Cons.IH [of zs'] Cons.prems(1)
    have "processRecords env ov (take n zs' @ a # drop n zs') rs =
       (case processRecords env ov zs' rs of
          (Inl e, calls) \<Rightarrow> (Inl e, calls)
        | (Inr zs'', calls) \<Rightarrow> (Inr (take n zs'' @ a # drop n zs''), calls))"
      by simp
    with res Inr step show ?thesis by (simp split: prod.splits sum.splits)
  qed
qed

text \<open>
  Two records around other records: the first adds an activity, the second turns it into
  another one, and no record between or after them matches it.
\<close>

lemma pair_frame:
  assumes rest: "processRecords env ov acts (mid @ post) = (Inr zs, calls)"
    and fresh: "find P acts = None"
    and P: "P = exactDividendMatch env x s"
    and first: "processRecord env ov acts r1 = (Inr (acts @ [stub]), c1)"
    and second: "\<And>xs ys. find P xs = None \<Longrightarrow>
        processRecord env ov (xs @ stub # ys) r2 = (Inr (xs @ A # ys), c2)"
    and mid: "\<forall>r\<in>set mid. \<not> rowMatches env ov r stub"
    and post: "\<forall>r\<in>set post. \<not> rowMatches env ov r A"
  shows "fst (processRecords env ov acts (r1 # mid @ r2 # post)) =
           Inr (take (length acts) zs @ A # drop (length acts) zs)"
proof -
  let ?n = "length acts"
  from rest obtain zs1 cm cp where m: "processRecords env ov acts mid = (Inr zs1, cm)"
    and p: "processRecords env ov zs1 post = (Inr zs, cp)"
    by (auto simp: processRecords_append split: prod.splits sum.splits)
  from no_match_kept [OF fresh [unfolded P] m]
  have len: "?n \<le> length zs1" and none: "find P (take ?n zs1) = None"
    by (simp_all add: P)
  have "processRecords env ov (acts @ [stub]) mid = (Inr (take ?n zs1 @ stub # drop ?n zs1), cm)"
    using processRecords_frame [OF mid, of ?n acts] m by simp
  moreover have "processRecord env ov (take ?n zs1 @ stub # drop ?n zs1) r2 =
      (Inr (take ?n zs1 @ A # drop ?n zs1), c2)"
    using second [OF none] .
  moreover have "processRecords env ov (take ?n zs1 @ A # drop ?n zs1) post =
      (Inr (take ?n zs @ A # drop ?n zs), cp)"
    using processRecords_frame [OF post len] p by simp
  ultimately show ?thesis
    using first by (simp add: processRecords_append)
qed

lemma processRecords_after:
  "processRecords env ov acts0 pre = (Inr acts, calls0) \<Longrightarrow>
   fst (processRecords env ov acts0 (pre @ rs)) = fst (processRecords env ov acts rs)"
  by (simp add: processRecords_append split: prod.splits)

text \<open>
  C1, as amended. Take any batch that contains a tax record and a dividend record, in
  either order, with any records before, between and after them, where
  \<^item> the two have the same security and data source, the same currency other than
    \<open>GBX\<close>, the same date (which dayjs reads in the same way with and without the
    format) and the same first 20 characters of the description, both have a price and
    neither is a payment in lieu;
  \<^item> the description of the tax record contains \<open>TAX\<close> and the description of the
    dividend record does not;
  \<^item> nothing else matches them: no activity of the records before them is accepted by
    the matcher for them, and no record between or after them asks the matcher and has
    their symbol, currency, date and first 20 characters;
  \<^item> the other records of the batch run without a fatal error.

  Then the two records yield exactly one activity: the result is the result of the
  batch without the two records, with one activity put in where the first of the two
  stands, after the activities of the records before. This activity has the comment,
  the quantity and the unit price of the dividend record and the fee of the tax record,
  and the result is the same whichever of the two comes first.
\<close>

theorem dividend_tax_pair_merges:
  assumes ids: "isin t \<noteq> []" "isin d \<noteq> []"
    and types: "rec_type t = ''dividendTax''" "rec_type d \<noteq> ''dividendTax''"
    and curs: "rec_currency t = rec_currency d" "rec_currency d \<noteq> []"
      "rec_currency d \<noteq> ''GBX''"
    and dates: "rec_date t = rec_date d"
      "dayjsFormat env None (rec_date d) = dayjsFormat env (Some ''YYYYMMDD'') (rec_date d)"
    and prefixes: "substring (description t) 0 20 = substring (description d) 0 20"
    and secs: "resolveSecurity env ov (isin t) (Some (rec_currency d)) =
        (Inr (Some sect, src), callst)"
      "resolveSecurity env ov (isin d) (Some (rec_currency d)) =
        (Inr (Some secd, src), callsd)"
      "sec_symbol sect = sec_symbol secd"
    and nopil: "\<not> (\<exists>u v. toLocaleLowerCase (description t) = u @ ''in lieu of'' @ v)"
      "\<not> (\<exists>u v. toLocaleLowerCase (description d) = u @ ''in lieu of'' @ v)"
    and prices: "matchPerShare (description t) = Some mt"
      "matchPerShare (description d) = Some md"
    and tax: "\<exists>u v. description t = u @ ''TAX'' @ v"
      "\<not> (\<exists>u v. description d = u @ ''TAX'' @ v)"
    and before: "processRecords env ov [] pre = (Inr acts, calls0)"
    and fresh: "findExactDividendMatch env d (sec_symbol secd) acts = None"
    and rest: "processRecords env ov acts (mid @ post) = (Inr zs, calls)"
    and merged: "A =
        \<lparr>accountId = GHOSTFOLIO_ACCOUNT_ID env, comment = description d,
         fee = Some (mathAbs env (amount t)),
         quantity = Some (divToFixed3 env (amount d) (parseFloat env md)),
         type = OrderTypeKey ''dividend'', unitPrice = Some (parseFloat env md),
         currency = Some (rec_currency d), dataSource = src,
         date = dayjsFormat env (Some ''YYYYMMDD'') (rec_date d),
         symbol = sec_symbol secd\<rparr>"
    and others: "\<forall>r\<in>set (mid @ post). \<not> rowMatches env ov r A"
  shows "fst (processRecords env ov []
                (pre @ DividendRow t # mid @ DividendRow d # post)) =
           Inr (take (length acts) zs @ A # drop (length acts) zs) \<and>
         fst (processRecords env ov []
                (pre @ DividendRow d # mid @ DividendRow t # post)) =
           Inr (take (length acts) zs @ A # drop (length acts) zs)"
proof -
  let ?P = "exactDividendMatch env d (sec_symbol secd)"
  let ?date = "dayjsFormat env (Some ''YYYYMMDD'') (rec_date d)"
  let ?aT = "\<lparr>accountId = GHOSTFOLIO_ACCOUNT_ID env, comment = description t,
      fee = Some (mathAbs env (amount t)), quantity = Some (num0 env),
      type = OrderTypeKey ''dividend'', unitPrice = Some (parseFloat env mt),
      currency = Some (rec_currency d), dataSource = src, date = ?date,
      symbol = sec_symbol secd\<rparr>"
  let ?aD = "\<lparr>accountId = GHOSTFOLIO_ACCOUNT_ID env, comment = description d,
      fee = Some (num0 env),
      quantity = Some (divToFixed3 env (amount d) (parseFloat env md)),
      type = OrderTypeKey ''dividend'', unitPrice = Some (parseFloat env md),
      currency = Some (rec_currency d), dataSource = src, date = ?date,
      symbol = sec_symbol secd\<rparr>"
  have same: "exactDividendMatch env t (sec_symbol secd) = ?P"
    using curs(1) dates(1) prefixes by (simp add: exactDividendMatch_def fun_eq_iff)
  have findT: "findExactDividendMatch env t (sec_symbol secd) xs = find ?P xs"
    and findD: "findExactDividendMatch env d (sec_symbol secd) xs = find ?P xs" for xs
    by (simp_all add: findExactDividendMatch_def same)
  have none: "find ?P acts = None"
    using fresh by (simp add: findExactDividendMatch_def)
  have curT: "recordCurrency (DividendRow t) = Some (rec_currency d)"
    and curD: "recordCurrency (DividendRow d) = Some (rec_currency d)"
    using curs by (simp_all add: recordCurrency_def)
  have pilT: "\<not> indexOf (toLocaleLowerCase (description t)) ''in lieu of'' > - 1"
    and pilD: "\<not> indexOf (toLocaleLowerCase (description d)) ''in lieu of'' > - 1"
    using nopil by (simp_all add: indexOf_contains)
  have taxT: "indexOf (description t) ''TAX'' > - 1"
    and taxD: "\<not> indexOf (description d) ''TAX'' > - 1"
    using tax by (simp_all add: indexOf_contains)
  have PT: "?P ?aT" and PD: "?P ?aD"
    using prefixes dates(2) by (simp_all add: exactDividendMatch_def)
  have keyT: "matchKey ?aT = matchKey A" and keyD: "matchKey ?aD = matchKey A"
    using prefixes by (simp_all add: merged matchKey_def)
  have midT: "\<forall>r\<in>set mid. \<not> rowMatches env ov r ?aT"
    and midD: "\<forall>r\<in>set mid. \<not> rowMatches env ov r ?aD"
    and post: "\<forall>r\<in>set post. \<not> rowMatches env ov r A"
    using others rowMatches_key [OF keyT] rowMatches_key [OF keyD] by simp_all
  have stepT: "processRecord env ov xs (DividendRow t) =
      (convertRecord env xs (DividendRow t) (Some (rec_currency d)) sect src, callst)" for xs
    using ids(1) secs(1) curT by (simp add: processRecord_resolved)
  have stepD: "processRecord env ov xs (DividendRow d) =
      (convertRecord env xs (DividendRow d) (Some (rec_currency d)) secd src, callsd)" for xs
    using ids(2) secs(2) curD by (simp add: processRecord_resolved)
  have T1: "processRecord env ov acts (DividendRow t) = (Inr (acts @ [?aT]), callst)"
    using curs(1,2) pilT prices(1) types(1) none findT secs(3) dates(1)
    by (simp add: stepT convertRecord_def Let_def)
  have D1: "processRecord env ov acts (DividendRow d) = (Inr (acts @ [?aD]), callsd)"
    using curs(2) pilD prices(2) types(2) none findD
    by (simp add: stepD convertRecord_def Let_def)
  have D2: "processRecord env ov (xs @ ?aT # ys) (DividendRow d) = (Inr (xs @ A # ys), callsd)"
    if "find ?P xs = None" for xs ys
    using curs(2) pilD prices(2) types(2) that findD PT taxT
    by (simp add: stepD convertRecord_def Let_def find_first updateFirst_first merged)
  have T2: "processRecord env ov (xs @ ?aD # ys) (DividendRow t) = (Inr (xs @ A # ys), callst)"
    if "find ?P xs = None" for xs ys
    using curs(1,2) pilT prices(1) types(1) that findT PD taxD secs(3) same
    by (simp add: stepT convertRecord_def Let_def find_first updateFirst_first merged)
  have "fst (processRecords env ov acts (DividendRow t # mid @ DividendRow d # post)) =
      Inr (take (length acts) zs @ A # drop (length acts) zs)"
    using rest none refl T1 D2 midT post by (rule pair_frame)
  moreover have "fst (processRecords env ov acts (DividendRow d # mid @ DividendRow t # post)) =
      Inr (take (length acts) zs @ A # drop (length acts) zs)"
    using rest none refl D1 T2 midD post by (rule pair_frame)
  ultimately show ?thesis
    by (simp only: processRecords_after [OF before] simp_thms)
qed

text \<open>
  A purchase before the two records, a dividend of another security between them and
  a payment in lieu with their symbol, currency, date and first 20 characters after
  them.
\<close>

theorem dividend_tax_pair_merges_witness:
  "fst (processRecords testEnv noOverrides []
          ([TradeRow appleBuy] @ DividendRow appleTax # [DividendRow shellDividend] @
           DividendRow appleDividend # [DividendRow applePaymentInLieu])) =
     Inr [\<lparr>accountId = Some ''account-1'', comment = [], fee = Some 1, quantity = Some 10,
            type = OrderTypeKey ''buy'', unitPrice = Some 150, currency = Some ''USD'',
            dataSource = YAHOO, date = ''2023-01-05T00:00:00+00:00'', symbol = ''AAPL''\<rparr>,
          \<lparr>accountId = Some ''account-1'',
           comment = ''AAPL(US0378331005) CASH DIVIDEND USD 0.24 PER SHARE (Ordinary Dividend)'',
           fee = Some (36 / 100), quantity = Some 10, type = OrderTypeKey ''dividend'',
           unitPrice = Some (24 / 100), currency = Some ''USD'', dataSource = YAHOO,
           date = ''2023-01-05T00:00:00+00:00'', symbol = ''AAPL''\<rparr>,
          \<lparr>accountId = Some ''account-1'',
            comment = ''RDSA(GB00B03MLX29) CASH DIVIDEND GBX 12.5 PER SHARE (Ordinary Dividend)'',
            fee = Some 0, quantity = Some 20, type = OrderTypeKey ''dividend'',
            unitPrice = Some (25 / 2), currency = Some ''GBp'', dataSource = YAHOO,
            date = ''2023-03-20T00:00:00+00:00'', symbol = ''RDSA.L''\<rparr>,
          \<lparr>accountId = Some ''account-1'',
            comment = ''AAPL(US0378331005) CASH DIVIDEND USD 0.24 PER SHARE - PAYMENT IN LIEU OF DIVIDEND'',
            fee = Some 0, quantity = Some (12 / 10), type = OrderTypeKey ''dividend'',
            unitPrice = Some 0, currency = Some ''USD'', dataSource = YAHOO,
            date = ''2023-01-05T00:00:00+00:00'', symbol = ''AAPL''\<rparr>] \<and>
   fst (processRecords testEnv noOverrides []
          ([TradeRow appleBuy] @ DividendRow appleDividend # [DividendRow shellDividend] @
           DividendRow appleTax # [DividendRow applePaymentInLieu])) =
   fst (processRecords testEnv noOverrides []
          ([TradeRow appleBuy] @ DividendRow appleTax # [DividendRow shellDividend] @
           DividendRow appleDividend # [DividendRow applePaymentInLieu]))"
proof -
  let ?buy = "\<lparr>accountId = Some ''account-1'', comment = [], fee = Some 1, quantity = Some 10,
      type = OrderTypeKey ''buy'', unitPrice = Some (150 :: rat), currency = Some ''USD'',
      dataSource = YAHOO, date = ''2023-01-05T00:00:00+00:00'', symbol = ''AAPL''\<rparr>"
  let ?shell = "\<lparr>accountId = Some ''account-1'',
      comment = ''RDSA(GB00B03MLX29) CASH DIVIDEND GBX 12.5 PER SHARE (Ordinary Dividend)'',
      fee = Some 0, quantity = Some 20, type = OrderTypeKey ''dividend'',
      unitPrice = Some (25 / 2 :: rat), currency = Some ''GBp'', dataSource = YAHOO,
      date = ''2023-03-20T00:00:00+00:00'', symbol = ''RDSA.L''\<rparr>"
  let ?pil = "\<lparr>accountId = Some ''account-1'',
      comment = ''AAPL(US0378331005) CASH DIVIDEND USD 0.24 PER SHARE - PAYMENT IN LIEU OF DIVIDEND'',
      fee = Some 0, quantity = Some (12 / 10 :: rat), type = OrderTypeKey ''dividend'',
      unitPrice = Some 0, currency = Some ''USD'', dataSource = YAHOO,
      date = ''2023-01-05T00:00:00+00:00'', symbol = ''AAPL''\<rparr>"
  let ?A = "\<lparr>accountId = GHOSTFOLIO_ACCOUNT_ID testEnv, comment = description appleDividend,
      fee = Some (mathAbs testEnv (amount appleTax)),
      quantity = Some (divToFixed3 testEnv (amount appleDividend) (parseFloat testEnv ''0.24'')),
      type = OrderTypeKey ''dividend'', unitPrice = Some (parseFloat testEnv ''0.24''),
      currency = Some (rec_currency appleDividend), dataSource = YAHOO,
      date = dayjsFormat testEnv (Some ''YYYYMMDD'') (rec_date appleDividend),
      symbol = sec_symbol apple\<rparr>"
  have ids: "isin appleTax \<noteq> []" "isin appleDividend \<noteq> []"
    by (simp_all add: appleTax_def appleDividend_def)
  have types: "rec_type appleTax = ''dividendTax''" "rec_type appleDividend \<noteq> ''dividendTax''"
    by (simp_all add: appleTax_def appleDividend_def)
  have curs: "rec_currency appleTax = rec_currency appleDividend"
    "rec_currency appleDividend \<noteq> []" "rec_currency appleDividend \<noteq> ''GBX''"
    by (simp_all add: appleTax_def appleDividend_def)
  have dates: "rec_date appleTax = rec_date appleDividend"
    "dayjsFormat testEnv None (rec_date appleDividend) =
     dayjsFormat testEnv (Some ''YYYYMMDD'') (rec_date appleDividend)"
    by (simp_all add: appleTax_def appleDividend_def testEnv_def)
  have prefixes: "substring (description appleTax) 0 20 = substring (description appleDividend) 0 20"
    by (simp add: appleTax_def appleDividend_def substring_def)
  have secs: "resolveSecurity testEnv noOverrides (isin appleTax) (Some (rec_currency appleDividend)) =
      (Inr (Some apple, YAHOO), [(Some ''US0378331005'', None, None, Some ''USD'')])"
    "resolveSecurity testEnv noOverrides (isin appleDividend) (Some (rec_currency appleDividend)) =
      (Inr (Some apple, YAHOO), [(Some ''US0378331005'', None, None, Some ''USD'')])"
    using resolve_apple by (simp_all add: appleTax_def appleDividend_def)
  have "\<not> indexOf (toLocaleLowerCase (description appleTax)) ''in lieu of'' > - 1"
    "\<not> indexOf (toLocaleLowerCase (description appleDividend)) ''in lieu of'' > - 1"
    by code_simp+
  then have nopil:
    "\<not> (\<exists>u v. toLocaleLowerCase (description appleTax) = u @ ''in lieu of'' @ v)"
    "\<not> (\<exists>u v. toLocaleLowerCase (description appleDividend) = u @ ''in lieu of'' @ v)"
    by (simp_all only: indexOf_contains not_False_eq_True)
  have prices: "matchPerShare (description appleTax) = Some ''0.24''"
    "matchPerShare (description appleDividend) = Some ''0.24''"
    by code_simp+
  have "indexOf (description appleTax) ''TAX'' > - 1"
    "\<not> indexOf (description appleDividend) ''TAX'' > - 1"
    by code_simp+
  then have tax: "\<exists>u v. description appleTax = u @ ''TAX'' @ v"
    "\<not> (\<exists>u v. description appleDividend = u @ ''TAX'' @ v)"
    by (simp_all only: indexOf_contains not_False_eq_True)
  have fresh: "findExactDividendMatch testEnv appleDividend (sec_symbol apple) [?buy] = None"
    by code_simp
  have rest: "processRecords testEnv noOverrides [?buy]
      ([DividendRow shellDividend] @ [DividendRow applePaymentInLieu]) =
      (Inr [?buy, ?shell, ?pil],
       [(Some ''GB00B03MLX29'', None, None, Some ''GBp''),
        (Some ''US0378331005'', None, None, Some ''USD'')])"
    by code_simp
  have others: "\<forall>r\<in>set ([DividendRow shellDividend] @ [DividendRow applePaymentInLieu]).
      \<not> rowMatches testEnv noOverrides r ?A"
    by code_simp
  have vals: "mathAbs testEnv (amount appleTax) = 36 / 100"
    "parseFloat testEnv ''0.24'' = 24 / 100"
    "divToFixed3 testEnv (amount appleDividend) (24 / 100) = 10"
    "GHOSTFOLIO_ACCOUNT_ID testEnv = Some ''account-1''"
    "dayjsFormat testEnv (Some ''YYYYMMDD'') (rec_date appleDividend) = ''2023-01-05T00:00:00+00:00''"
    "description appleDividend =
       ''AAPL(US0378331005) CASH DIVIDEND USD 0.24 PER SHARE (Ordinary Dividend)''"
    "rec_currency appleDividend = ''USD''" "sec_symbol apple = ''AAPL''"
    by code_simp+
  have shape: "take (length [?buy]) [?buy, ?shell, ?pil] @ a # drop (length [?buy]) [?buy, ?shell, ?pil] =
      [?buy, a, ?shell, ?pil]" for a
    by simp
  show ?thesis
    using dividend_tax_pair_merges [OF ids types curs dates prefixes secs refl nopil prices
        tax processed_appleBuy fresh rest refl others]
    by (simp only: vals shape simp_thms)
qed

text \<open>
  A record between the two that matches them takes part in the merge: a second dividend
  of the same day overwrites the activity of the tax record, and the dividend record then
  only writes its fee \<open>0\<close>.
\<close>

lemma third_matching_record:
  "rowMatches testEnv noOverrides (DividendRow appleSpecialDividend)
     \<lparr>accountId = Some ''account-1'',
      comment = ''AAPL(US0378331005) CASH DIVIDEND USD 0.24 PER SHARE (Ordinary Dividend)'',
      fee = Some (36 / 100), quantity = Some 10, type = OrderTypeKey ''dividend'',
      unitPrice = Some (24 / 100), currency = Some ''USD'', dataSource = YAHOO,
      date = ''2023-01-05T00:00:00+00:00'', symbol = ''AAPL''\<rparr> \<and>
   fst (processRecords testEnv noOverrides []
          [DividendRow appleTax, DividendRow appleSpecialDividend, DividendRow appleDividend]) =
     Inr [\<lparr>accountId = Some ''account-1'',
           comment = ''AAPL(US0378331005) CASH DIVIDEND USD 0.10 PER SHARE (Bonus Dividend)'',
           fee = Some 0, quantity = Some 2, type = OrderTypeKey ''dividend'',
           unitPrice = Some (10 / 100), currency = Some ''USD'', dataSource = YAHOO,
           date = ''2023-01-05T00:00:00+00:00'', symbol = ''AAPL''\<rparr>]"
  by code_simp

text \<open>
  C1 as stated fails for the two records with the description \<^verbatim>\<open>0.24 PER SHARE\<close>. With
  the tax record first, the dividend record takes the activity of the tax record for a
  dividend, since its comment does not contain \<open>TAX\<close>, and only writes its own fee
  \<open>0\<close>: the quantity stays \<open>0\<close> and the fee of the tax record is lost. With the
  dividend record first the result is the expected one.
\<close>

theorem plain_tax_first_counterexample:
  "rec_currency plainTax = rec_currency plainDividend \<and>
   rec_date plainTax = rec_date plainDividend \<and>
   isin plainTax = isin plainDividend \<and>
   substring (description plainTax) 0 20 = substring (description plainDividend) 0 20 \<and>
   fst (processRecords testEnv noOverrides []
          [DividendRow plainTax, DividendRow plainDividend]) =
     Inr [\<lparr>accountId = Some ''account-1'', comment = ''0.24 PER SHARE'', fee = Some 0,
           quantity = Some 0, type = OrderTypeKey ''dividend'', unitPrice = Some (24 / 100),
           currency = Some ''USD'', dataSource = YAHOO, date = ''2023-01-05T00:00:00+00:00'',
           symbol = ''AAPL''\<rparr>] \<and>
   fst (processRecords testEnv noOverrides []
          [DividendRow plainDividend, DividendRow plainTax]) =
     Inr [\<lparr>accountId = Some ''account-1'', comment = ''0.24 PER SHARE'',
           fee = Some (36 / 100), quantity = Some 10, type = OrderTypeKey ''dividend'',
           unitPrice = Some (24 / 100), currency = Some ''USD'', dataSource = YAHOO,
           date = ''2023-01-05T00:00:00+00:00'', symbol = ''AAPL''\<rparr>]"
  by code_simp

end
